theory Spec2Isabelle
  imports Main "HOL-Library.Sublist" "HOL-Library.AList"
begin

section \<open>Session data (session\_manager.py)\<close>

text \<open>
  Instants (\<open>datetime\<close>) are integers counting microseconds, the resolution of
  Python's \<open>datetime\<close>; \<open>timedelta(minutes=k)\<close> is \<open>k * minute\<close>. Every function that
  reads \<open>datetime.now()\<close> takes the instant as its argument \<open>now\<close>.
\<close>

datatype ConversationPhase = GREETING | TRIAGE | SCREENING | RESULTS | CRISIS_RESPONSE

datatype ScreeningTool = PHQ9 | GAD7 | GHQ12

datatype py_error = ValueError | IndexError | AttributeError

record QuestionResponse =
  question_id :: string
  user_text :: string
  mapped_score :: int
  timestamp :: int

record ConversationEntry =
  entry_user_message :: string
  entry_ai_response :: string
  entry_phase :: string
  entry_timestamp :: int

record SessionData =
  session_id :: string
  user_name :: "string option"
  country :: "string option"
  start_time :: int
  last_activity :: int
  current_phase :: ConversationPhase
  selected_tool :: "ScreeningTool option"
  responses :: "QuestionResponse list"
  has_past_diagnosis :: "bool option"
  crisis_detected :: bool
  completed :: bool
  conversation_history :: "ConversationEntry list"

definition minute :: int where
  "minute = 60000000"

text \<open>The \<open>.value\<close> of an enum member, and the enum's constructor from a string,
  which raises \<open>ValueError\<close> on any other string.\<close>

fun phase_value :: "ConversationPhase \<Rightarrow> string" where
  "phase_value GREETING = ''GREETING''"
| "phase_value TRIAGE = ''TRIAGE''"
| "phase_value SCREENING = ''SCREENING''"
| "phase_value RESULTS = ''RESULTS''"
| "phase_value CRISIS_RESPONSE = ''CRISIS_RESPONSE''"

definition ConversationPhase_of :: "string \<Rightarrow> py_error + ConversationPhase" where
  "ConversationPhase_of v =
     (if v = ''GREETING'' then Inr GREETING
      else if v = ''TRIAGE'' then Inr TRIAGE
      else if v = ''SCREENING'' then Inr SCREENING
      else if v = ''RESULTS'' then Inr RESULTS
      else if v = ''CRISIS_RESPONSE'' then Inr CRISIS_RESPONSE
      else Inl ValueError)"

fun tool_value :: "ScreeningTool \<Rightarrow> string" where
  "tool_value PHQ9 = ''PHQ9''"
| "tool_value GAD7 = ''GAD7''"
| "tool_value GHQ12 = ''GHQ12''"

definition ScreeningTool_of :: "string \<Rightarrow> py_error + ScreeningTool" where
  "ScreeningTool_of v =
     (if v = ''PHQ9'' then Inr PHQ9
      else if v = ''GAD7'' then Inr GAD7
      else if v = ''GHQ12'' then Inr GHQ12
      else Inl ValueError)"

text \<open>\<open>SessionData(session_id=..., user_name=..., country=...)\<close>: the dataclass defaults.\<close>

definition new_SessionData :: "string \<Rightarrow> string option \<Rightarrow> string option \<Rightarrow> int \<Rightarrow> SessionData" where
  "new_SessionData sid name ctry now =
     \<lparr> session_id = sid, user_name = name, country = ctry,
       start_time = now, last_activity = now,
       current_phase = GREETING, selected_tool = None, responses = [],
       has_past_diagnosis = None, crisis_detected = False, completed = False,
       conversation_history = [] \<rparr>"

definition update_activity :: "int \<Rightarrow> SessionData \<Rightarrow> SessionData" where
  "update_activity now s = s\<lparr>last_activity := now\<rparr>"

definition session_add_response :: "string \<Rightarrow> string \<Rightarrow> int \<Rightarrow> int \<Rightarrow> SessionData \<Rightarrow> SessionData" where
  "session_add_response qid text score now s =
     update_activity now
       (s\<lparr>responses := responses s @
            [\<lparr>question_id = qid, user_text = text, mapped_score = score, timestamp = now\<rparr>]\<rparr>)"

definition add_conversation_entry :: "string \<Rightarrow> string \<Rightarrow> string \<Rightarrow> int \<Rightarrow> SessionData \<Rightarrow> SessionData" where
  "add_conversation_entry user_message ai_resp phase now s =
     update_activity now
       (s\<lparr>conversation_history := conversation_history s @
            [\<lparr>entry_user_message = user_message, entry_ai_response = ai_resp,
              entry_phase = phase, entry_timestamp = now\<rparr>]\<rparr>)"

definition is_expired :: "SessionData \<Rightarrow> int \<Rightarrow> int \<Rightarrow> bool" where
  "is_expired s timeout now = (now > last_activity s + timeout * minute)"

definition get_total_score :: "SessionData \<Rightarrow> int" where
  "get_total_score s = sum_list (map mapped_score (responses s))"

section \<open>The session store (SessionManager)\<close>

text \<open>
  The table \<open>self.sessions\<close> is a Python dict: an association list in insertion order
  (the order \<open>min\<close> and the sweep iterate in) whose keys are distinct. Assigning to a new
  key appends, assigning to a present key keeps its place, \<open>del\<close> removes the entry:
  \<open>AList.update\<close> and \<open>AList.delete\<close>.
\<close>

record SessionManager =
  timeout_minutes :: int
  max_sessions :: int
  sessions :: "(string \<times> SessionData) list"

text \<open>\<open>__init__\<close>: \<open>x or default\<close> takes the default for \<open>None\<close> and for \<open>0\<close>. The two
  defaults are \<open>config.SESSION_TIMEOUT_MINUTES\<close> and \<open>config.MAX_SESSIONS\<close>.\<close>

definition or_default :: "int option \<Rightarrow> int \<Rightarrow> int" where
  "or_default x d = (case x of None \<Rightarrow> d | Some v \<Rightarrow> if v = 0 then d else v)"

definition new_SessionManager :: "int option \<Rightarrow> int option \<Rightarrow> int \<Rightarrow> int \<Rightarrow> SessionManager" where
  "new_SessionManager timeout maxs cfg_timeout cfg_max =
     \<lparr> timeout_minutes = or_default timeout cfg_timeout,
       max_sessions = or_default maxs cfg_max,
       sessions = [] \<rparr>"

definition cleanup_expired_sessions :: "int \<Rightarrow> SessionManager \<Rightarrow> nat \<times> SessionManager" where
  "cleanup_expired_sessions now m =
     (let expired_sessions =
            map fst (filter (\<lambda>(sid, s). is_expired s (timeout_minutes m) now) (sessions m))
      in (length expired_sessions,
          m\<lparr>sessions := fold AList.delete expired_sessions (sessions m)\<rparr>))"

text \<open>\<open>min(keys, key=...)\<close>: the first key, in iteration order, with the least
  \<open>last_activity\<close>; \<open>ValueError\<close> on an empty table.\<close>

fun min_from :: "(string \<times> SessionData) \<Rightarrow> (string \<times> SessionData) list \<Rightarrow> string \<times> SessionData" where
  "min_from best [] = best"
| "min_from best (x # xs) =
     min_from (if last_activity (snd x) < last_activity (snd best) then x else best) xs"

definition oldest_session_id :: "(string \<times> SessionData) list \<Rightarrow> py_error + string" where
  "oldest_session_id tbl = (case tbl of [] \<Rightarrow> Inl ValueError | x # xs \<Rightarrow> Inr (fst (min_from x xs)))"

text \<open>
  The loop \<open>while session_id in self.sessions: session_id = str(uuid.uuid4())\<close> draws
  identifiers until one is new. The successive results of \<open>uuid4()\<close> are the list
  \<open>draws\<close>; \<open>None\<close> means that every draw supplied was taken, so the loop has not ended.
\<close>

fun draw_session_id :: "string list \<Rightarrow> (string \<times> SessionData) list \<Rightarrow> string option" where
  "draw_session_id [] tbl = None"
| "draw_session_id (d # ds) tbl =
     (if d \<in> fst ` set tbl then draw_session_id ds tbl else Some d)"

text \<open>\<open>create_session\<close>: \<open>None\<close> when the identifier loop has not ended, \<open>Some (Inl e)\<close>
  when \<open>min\<close> raised, \<open>Some (Inr sid)\<close> when the session was created.\<close>

definition evict_for_create :: "int \<Rightarrow> SessionManager \<Rightarrow> py_error + SessionManager" where
  "evict_for_create now m =
     (if int (length (sessions m)) \<ge> max_sessions m then
        (let m1 = snd (cleanup_expired_sessions now m) in
         if int (length (sessions m1)) \<ge> max_sessions m1 then
           (case oldest_session_id (sessions m1) of
              Inl e \<Rightarrow> Inl e
            | Inr oldest \<Rightarrow> Inr (m1\<lparr>sessions := AList.delete oldest (sessions m1)\<rparr>))
         else Inr m1)
      else Inr m)"

definition create_session ::
  "string option \<Rightarrow> string option \<Rightarrow> string list \<Rightarrow> int \<Rightarrow> SessionManager
     \<Rightarrow> (py_error + string) option \<times> SessionManager" where
  "create_session name ctry draws now m =
     (case evict_for_create now m of
        Inl e \<Rightarrow> (Some (Inl e), snd (cleanup_expired_sessions now m))
      | Inr m1 \<Rightarrow>
          (case draw_session_id draws (sessions m1) of
             None \<Rightarrow> (None, m1)
           | Some sid \<Rightarrow>
               (Some (Inr sid),
                m1\<lparr>sessions := AList.update sid (new_SessionData sid name ctry now) (sessions m1)\<rparr>)))"

text \<open>\<open>get_session\<close> returns a handle on the stored object; here it returns the stored
  value after the refresh, and the table holding it.\<close>

definition get_session :: "string \<Rightarrow> int \<Rightarrow> SessionManager \<Rightarrow> SessionData option \<times> SessionManager" where
  "get_session sid now m =
     (case map_of (sessions m) sid of
        Some s \<Rightarrow>
          if \<not> is_expired s (timeout_minutes m) now
          then (Some (update_activity now s),
                m\<lparr>sessions := AList.update sid (update_activity now s) (sessions m)\<rparr>)
          else (None, m\<lparr>sessions := AList.delete sid (sessions m)\<rparr>)
      | None \<Rightarrow> (None, m))"

text \<open>
  The keyword arguments of \<open>update_session\<close>, in the order given. A string passed for
  \<open>current_phase\<close> or \<open>selected_tool\<close> goes through the enum's constructor; any other
  value is stored as it is. \<open>other\<close> is a keyword outside \<open>allowed_fields\<close>, which the
  loop skips whatever its value.
\<close>

datatype update =
    current_phase_str string
  | current_phase_enum ConversationPhase
  | selected_tool_str string
  | selected_tool_enum "ScreeningTool option"
  | has_past_diagnosis_upd "bool option"
  | crisis_detected_upd bool
  | completed_upd bool
  | user_name_upd "string option"
  | country_upd "string option"
  | other string

fun set_field :: "update \<Rightarrow> SessionData \<Rightarrow> py_error + SessionData" where
  "set_field (current_phase_str v) s =
     (case ConversationPhase_of v of Inl e \<Rightarrow> Inl e | Inr p \<Rightarrow> Inr (s\<lparr>current_phase := p\<rparr>))"
| "set_field (current_phase_enum p) s = Inr (s\<lparr>current_phase := p\<rparr>)"
| "set_field (selected_tool_str v) s =
     (case ScreeningTool_of v of Inl e \<Rightarrow> Inl e | Inr t \<Rightarrow> Inr (s\<lparr>selected_tool := Some t\<rparr>))"
| "set_field (selected_tool_enum t) s = Inr (s\<lparr>selected_tool := t\<rparr>)"
| "set_field (has_past_diagnosis_upd b) s = Inr (s\<lparr>has_past_diagnosis := b\<rparr>)"
| "set_field (crisis_detected_upd b) s = Inr (s\<lparr>crisis_detected := b\<rparr>)"
| "set_field (completed_upd b) s = Inr (s\<lparr>completed := b\<rparr>)"
| "set_field (user_name_upd n) s = Inr (s\<lparr>user_name := n\<rparr>)"
| "set_field (country_upd c) s = Inr (s\<lparr>country := c\<rparr>)"
| "set_field (other k) s = Inr s"

text \<open>The loop over \<open>updates.items()\<close>: a raising conversion leaves the fields already
  set as they are (second component) and skips \<open>update_activity\<close>.\<close>

fun set_fields :: "update list \<Rightarrow> SessionData \<Rightarrow> py_error option \<times> SessionData" where
  "set_fields [] s = (None, s)"
| "set_fields (u # us) s =
     (case set_field u s of Inl e \<Rightarrow> (Some e, s) | Inr s' \<Rightarrow> set_fields us s')"

definition update_session ::
  "string \<Rightarrow> update list \<Rightarrow> int \<Rightarrow> SessionManager \<Rightarrow> (py_error + bool) \<times> SessionManager" where
  "update_session sid updates now m =
     (case get_session sid now m of
        (None, m1) \<Rightarrow> (Inr False, m1)
      | (Some s, m1) \<Rightarrow>
          (case set_fields updates s of
             (Some e, s') \<Rightarrow> (Inl e, m1\<lparr>sessions := AList.update sid s' (sessions m1)\<rparr>)
           | (None, s') \<Rightarrow>
               (Inr True, m1\<lparr>sessions := AList.update sid (update_activity now s') (sessions m1)\<rparr>)))"

definition add_response ::
  "string \<Rightarrow> string \<Rightarrow> string \<Rightarrow> int \<Rightarrow> int \<Rightarrow> SessionManager \<Rightarrow> bool \<times> SessionManager" where
  "add_response sid qid text score now m =
     (case get_session sid now m of
        (None, m1) \<Rightarrow> (False, m1)
      | (Some s, m1) \<Rightarrow>
          (True, m1\<lparr>sessions := AList.update sid (session_add_response qid text score now s) (sessions m1)\<rparr>))"

definition add_conversation ::
  "string \<Rightarrow> string \<Rightarrow> string \<Rightarrow> string \<Rightarrow> int \<Rightarrow> SessionManager \<Rightarrow> bool \<times> SessionManager" where
  "add_conversation sid user_message ai_resp phase now m =
     (case get_session sid now m of
        (None, m1) \<Rightarrow> (False, m1)
      | (Some s, m1) \<Rightarrow>
          (True, m1\<lparr>sessions := AList.update sid (add_conversation_entry user_message ai_resp phase now s) (sessions m1)\<rparr>))"

definition delete_session :: "string \<Rightarrow> SessionManager \<Rightarrow> bool \<times> SessionManager" where
  "delete_session sid m =
     (if sid \<in> fst ` set (sessions m)
      then (True, m\<lparr>sessions := AList.delete sid (sessions m)\<rparr>)
      else (False, m))"

definition clear_all_sessions :: "SessionManager \<Rightarrow> SessionManager" where
  "clear_all_sessions m = m\<lparr>sessions := []\<rparr>"

section \<open>Strings\<close>

text \<open>
  A \<open>str\<close> is a list of characters, each a code point below 256. \<open>lower\<close> is
  \<open>str.lower()\<close> on these code points (the letters A to Z and the accented capitals
  of Latin-1), \<open>strip\<close> is \<open>str.strip()\<close>, which removes the leading and trailing
  characters for which \<open>str.isspace()\<close> holds, and \<open>a in b\<close> on strings is
  \<open>sublist a b\<close>, a contiguous occurrence.
\<close>

definition lower_char :: "char \<Rightarrow> char" where
  \<comment> \<open>The lower-case letter is 32 above the capital: bit 5, clear in every capital, is set.\<close>
  "lower_char c =
     (let n = (of_char c :: nat) in
      if (65 \<le> n \<and> n \<le> 90) \<or> (192 \<le> n \<and> n \<le> 214) \<or> (216 \<le> n \<and> n \<le> 222)
      then (case c of Char b0 b1 b2 b3 b4 b5 b6 b7 \<Rightarrow> Char b0 b1 b2 b3 b4 True b6 b7)
      else c)"

definition lower :: "string \<Rightarrow> string" where
  "lower s = map lower_char s"

definition is_space :: "char \<Rightarrow> bool" where
  "is_space c =
     (let n = (of_char c :: nat) in
      (9 \<le> n \<and> n \<le> 13) \<or> (28 \<le> n \<and> n \<le> 32) \<or> n = 133 \<or> n = 160)"

definition strip :: "string \<Rightarrow> string" where
  "strip s = rev (dropWhile is_space (rev (dropWhile is_space s)))"

text \<open>\<open>any(k in text for k in keywords)\<close>\<close>

definition any_in :: "string list \<Rightarrow> string \<Rightarrow> bool" where
  "any_in keywords text = list_ex (\<lambda>k. sublist k text) keywords"

section \<open>The crisis detector (safety\_monitor.py)\<close>

datatype CrisisLevel = NONE | WARNING | CRITICAL

record CrisisResponse =
  level :: CrisisLevel
  triggered_words :: "string list"
  message :: string
  crisis_timestamp :: int
  requires_override :: bool

text \<open>The two attributes that \<open>__init__\<close> reads from the \<open>crisis\<close> entry of the
  configuration file: \<open>keywords\<close> (default \<open>[]\<close>) and \<open>response\<close> (default \<open>""\<close>).\<close>

record SafetyMonitor =
  critical_triggers :: "string list"
  crisis_response_message :: string

text \<open>The argument of \<open>check_for_crisis\<close> is any Python value: a \<open>str\<close>, or
  something else (\<open>None\<close>, a number, a list).\<close>

datatype py_arg = Str string | NotStr

definition get_crisis_message :: "SafetyMonitor \<Rightarrow> string" where
  "get_crisis_message sm = crisis_response_message sm"

definition no_crisis :: "int \<Rightarrow> CrisisResponse" where
  "no_crisis now = \<lparr> level = NONE, triggered_words = [], message = [],
                      crisis_timestamp = now, requires_override = False \<rparr>"

fun check_for_crisis :: "SafetyMonitor \<Rightarrow> py_arg \<Rightarrow> int \<Rightarrow> CrisisResponse" where
  "check_for_crisis sm NotStr now = no_crisis now"
| "check_for_crisis sm (Str text) now =
     (if text = [] then no_crisis now
      else
        (let normalized_text = strip (lower text);
             triggered = filter (\<lambda>trigger. sublist (lower trigger) normalized_text)
                                (critical_triggers sm)
         in if triggered \<noteq> []
            then \<lparr> level = CRITICAL, triggered_words = triggered,
                   message = get_crisis_message sm,
                   crisis_timestamp = now, requires_override = True \<rparr>
            else no_crisis now))"

section \<open>The bot configuration (botConfig.json)\<close>

text \<open>
  The configuration file is not part of the sources; the flow manager reads it through
  \<open>dict.get\<close> with defaults. The record below holds what those reads return: a field is
  an \<open>option\<close> where the code tells an absent key from a present one, and otherwise holds
  the value after the default (\<open>""\<close>, \<open>[]\<close>, \<open>{}\<close>) has been taken. JSON objects that
  the code iterates over are association lists in file order. Keyword lists hold strings,
  and a band's range \<open>[low, high]\<close> is a pair of integers.
\<close>

record Questionnaire =
  questions :: "string list"
  crisisQuestionIndex :: "int option"
  thresholds :: "(string \<times> int \<times> int) list"

record ResultEntry =
  result_message :: "string option"
  suggestions :: "string list option"

record BotConfig =
  intro_welcome :: string
  intro_yesKeywords :: "string list"
  intro_noKeywords :: "string list"
  intro_exitResponse :: "string option"
  moodSelection_prompt :: string
  moodSelection_routing :: "(string \<times> string list) list"
  questionnaires :: "(string \<times> Questionnaire) list"
  answerMapping_clarifyPrompt :: "string option"
  standardScale :: "(string \<times> string list) list option"
  ghqScale :: "(string \<times> string list) list option"
  results :: "(string \<times> ResultEntry) list"

text \<open>\<open>self.config.get("questionnaires", {}).get(tool_name, {})\<close> followed by
  \<open>.get("questions", [])\<close>, \<open>.get("crisisQuestionIndex")\<close>, \<open>.get("thresholds", {})\<close>.\<close>

definition questions_of :: "BotConfig \<Rightarrow> string \<Rightarrow> string list" where
  "questions_of cfg tool_name =
     (case map_of (questionnaires cfg) tool_name of None \<Rightarrow> [] | Some q \<Rightarrow> questions q)"

definition crisis_index_of :: "BotConfig \<Rightarrow> string \<Rightarrow> int option" where
  "crisis_index_of cfg tool_name =
     (case map_of (questionnaires cfg) tool_name of None \<Rightarrow> None | Some q \<Rightarrow> crisisQuestionIndex q)"

definition thresholds_of :: "BotConfig \<Rightarrow> string \<Rightarrow> (string \<times> int \<times> int) list" where
  "thresholds_of cfg tool_name =
     (case map_of (questionnaires cfg) tool_name of None \<Rightarrow> [] | Some q \<Rightarrow> thresholds q)"

text \<open>\<open>self.config.get("results", {}).get(severity, {})\<close>: the empty dict is the entry
  with no key.\<close>

definition empty_entry :: ResultEntry where
  "empty_entry = \<lparr> result_message = None, suggestions = None \<rparr>"

definition result_entry :: "BotConfig \<Rightarrow> string \<Rightarrow> ResultEntry" where
  "result_entry cfg severity =
     (case map_of (results cfg) severity of None \<Rightarrow> empty_entry | Some e \<Rightarrow> e)"

definition or_else :: "'a option \<Rightarrow> 'a \<Rightarrow> 'a" where
  "or_else x d = (case x of None \<Rightarrow> d | Some v \<Rightarrow> v)"

section \<open>The conversation flow (conversation\_flow.py)\<close>

text \<open>
  The dict a handler returns. A key the handler does not set is \<open>None\<close>; so is
  \<open>"ai_response": None\<close> and \<open>"current_phase": None\<close> of the not-found reply. The
  \<open>error\<close> entry is the fixed text "Session not found or expired" or the \<open>str(e)\<close> of a
  caught exception.
\<close>

datatype reply_error = SessionNotFound | Raised py_error

record Reply =
  error :: "reply_error option"
  ai_response :: "string option"
  reply_current_phase :: "string option"
  reply_crisis_detected :: "bool option"
  next_action :: "string option"
  reply_completed :: "bool option"
  reply_selected_tool :: "string option"
  question_number :: "nat option"
  total_score :: "int option"
  severity_level :: "string option"
  crisis_trigger :: "string option"

definition reply :: "string \<Rightarrow> ConversationPhase \<Rightarrow> bool \<Rightarrow> Reply" where
  "reply text phase crisis =
     \<lparr> error = None, ai_response = Some text,
       reply_current_phase = Some (phase_value phase), reply_crisis_detected = Some crisis,
       next_action = None, reply_completed = None, reply_selected_tool = None,
       question_number = None, total_score = None, severity_level = None,
       crisis_trigger = None \<rparr>"

definition not_found_reply :: Reply where
  "not_found_reply =
     \<lparr> error = Some SessionNotFound, ai_response = None,
       reply_current_phase = None, reply_crisis_detected = Some False,
       next_action = None, reply_completed = None, reply_selected_tool = None,
       question_number = None, total_score = None, severity_level = None,
       crisis_trigger = None \<rparr>"

text \<open>\<open>{"error": str(e)}\<close>, the reply of the two crisis handlers on an exception.\<close>

definition error_only :: "py_error \<Rightarrow> Reply" where
  "error_only e =
     \<lparr> error = Some (Raised e), ai_response = None,
       reply_current_phase = None, reply_crisis_detected = None,
       next_action = None, reply_completed = None, reply_selected_tool = None,
       question_number = None, total_score = None, severity_level = None,
       crisis_trigger = None \<rparr>"

definition get_error_response :: "SessionData \<Rightarrow> py_error \<Rightarrow> Reply" where
  "get_error_response session e =
     (reply ''I'm sorry, I encountered an error. Let's try again.'' (current_phase session) False)
       \<lparr> error := Some (Raised e) \<rparr>"

text \<open>
  A handler holds \<open>session\<close>, the object \<open>get_session\<close> returned, while it calls the
  store, which mutates that same object. \<open>handle sid session m\<close> is the state of the object
  after a store call that left the table \<open>m\<close>: the stored session, or, once the store has
  dropped the identifier, the object as it was.
\<close>

definition handle :: "string \<Rightarrow> SessionData \<Rightarrow> SessionManager \<Rightarrow> SessionData" where
  "handle sid session m = (case map_of (sessions m) sid of Some s \<Rightarrow> s | None \<Rightarrow> session)"

text \<open>The decimal digits of \<open>f"{n}"\<close>.\<close>

definition digit_char :: "nat \<Rightarrow> char" where
  "digit_char d =
     (if d = 0 then CHR ''0'' else if d = 1 then CHR ''1'' else if d = 2 then CHR ''2''
      else if d = 3 then CHR ''3'' else if d = 4 then CHR ''4'' else if d = 5 then CHR ''5''
      else if d = 6 then CHR ''6'' else if d = 7 then CHR ''7'' else if d = 8 then CHR ''8''
      else CHR ''9'')"

fun string_of_nat :: "nat \<Rightarrow> string" where
  "string_of_nat n =
     (if n < 10 then [digit_char n] else string_of_nat (n div 10) @ [digit_char (n mod 10)])"

text \<open>\<open>ScreeningTool.name\<close>; each member's name equals its value.\<close>

definition tool_name_of :: "ScreeningTool \<Rightarrow> string" where
  "tool_name_of tool = tool_value tool"

text \<open>\<open>self.tool_mapping.get(name)\<close>\<close>

definition tool_mapping :: "string \<Rightarrow> ScreeningTool option" where
  "tool_mapping name =
     (if name = ''PHQ9'' then Some PHQ9 else if name = ''GAD7'' then Some GAD7
      else if name = ''GHQ12'' then Some GHQ12 else None)"

subsection \<open>Phase handlers\<close>

text \<open>
  Each handler takes the table and returns its reply with the table it leaves. A handler
  body runs inside \<open>try\<close>/\<open>except Exception\<close>: where a step raises, the handler
  returns \<open>_get_error_response(session, str(e))\<close> and the table keeps what the earlier
  steps did. All clock readings of one call of \<open>process_user_message\<close> are the one
  instant \<open>now\<close>.
\<close>

definition handle_unknown_phase ::
  "BotConfig \<Rightarrow> string \<Rightarrow> string \<Rightarrow> SessionData \<Rightarrow> int \<Rightarrow> SessionManager
     \<Rightarrow> (py_error + Reply) \<times> SessionManager" where
  "handle_unknown_phase cfg sid user_message session now m =
     (case update_session sid [current_phase_str (phase_value GREETING)] now m of
        (Inl e, m1) \<Rightarrow> (Inl e, m1)
      | (Inr ok, m1) \<Rightarrow>
          (let msg = ''Let's start over. '' @ intro_welcome cfg;
               m2 = snd (add_conversation sid user_message msg (phase_value GREETING) now m1)
           in (Inr (reply msg GREETING False), m2)))"

definition handle_greeting_phase ::
  "BotConfig \<Rightarrow> string \<Rightarrow> string \<Rightarrow> SessionData \<Rightarrow> int \<Rightarrow> SessionManager
     \<Rightarrow> Reply \<times> SessionManager" where
  "handle_greeting_phase cfg sid user_message session now m =
     (let welcome_msg = intro_welcome cfg in
      if conversation_history session = [] then
        (let m1 = snd (add_conversation sid user_message welcome_msg (phase_value GREETING) now m)
         in ((reply welcome_msg GREETING False)\<lparr>next_action := Some ''wait_for_intro_response''\<rparr>, m1))
      else
        (let user_text_lower = strip (lower user_message) in
         if any_in (intro_yesKeywords cfg) user_text_lower then
           (let mood_prompt = moodSelection_prompt cfg in
            case update_session sid [current_phase_str (phase_value TRIAGE)] now m of
              (Inl e, m1) \<Rightarrow> (get_error_response (handle sid session m1) e, m1)
            | (Inr ok, m1) \<Rightarrow>
                (let m2 = snd (add_conversation sid user_message mood_prompt (phase_value TRIAGE) now m1)
                 in ((reply mood_prompt TRIAGE False)\<lparr>next_action := Some ''get_mood''\<rparr>, m2)))
         else if any_in (intro_noKeywords cfg) user_text_lower then
           (let exit_msg = or_else (intro_exitResponse cfg) [];
                m1 = snd (add_conversation sid user_message exit_msg (phase_value GREETING) now m)
            in ((reply exit_msg GREETING False)\<lparr>reply_completed := Some True\<rparr>, m1))
         else
           (let retry_msg = ''I didn't quite catch that. Would you like to continue? Please say 'yes' or 'no'.'';
                m1 = snd (add_conversation sid user_message retry_msg (phase_value GREETING) now m)
            in (reply retry_msg GREETING False, m1))))"

text \<open>The routing loop: the first entry of \<open>routing.items()\<close> with a keyword in the
  lower-cased text.\<close>

definition route :: "BotConfig \<Rightarrow> string \<Rightarrow> string option" where
  "route cfg user_text_lower =
     map_option fst (find (\<lambda>(tool_name, keywords). any_in keywords user_text_lower)
                          (moodSelection_routing cfg))"

definition handle_triage_phase ::
  "BotConfig \<Rightarrow> string \<Rightarrow> string \<Rightarrow> SessionData \<Rightarrow> int \<Rightarrow> SessionManager
     \<Rightarrow> Reply \<times> SessionManager" where
  "handle_triage_phase cfg sid user_message session now m =
     (let user_text_lower = lower user_message;
          selected_tool_name = route cfg user_text_lower
      in
      if selected_tool_name = None \<or> selected_tool_name = Some [] then
        (let retry_msg = ''Could you tell me if you are feeling more sad, anxious, or just generally stressed?'';
             m1 = snd (add_conversation sid user_message retry_msg (phase_value TRIAGE) now m)
         in (reply retry_msg TRIAGE False, m1))
      else
        (let tool_enum = or_else (tool_mapping (the selected_tool_name)) GHQ12;
             tool_name = (if tool_mapping (the selected_tool_name) = None then ''GHQ12''
                          else the selected_tool_name)
         in
         case update_session sid
                [selected_tool_str (tool_value tool_enum),
                 current_phase_str (phase_value SCREENING),
                 other ''responses''] now m of
           (Inl e, m1) \<Rightarrow> (get_error_response (handle sid session m1) e, m1)
         | (Inr ok, m1) \<Rightarrow>
             (case questions_of cfg tool_name of
                [] \<Rightarrow> (get_error_response (handle sid session m1) IndexError, m1)
              | first_q # rest_q \<Rightarrow>
                  (let transition_msg = ''I understand. Let's talk a bit more about that. '' @ first_q;
                       m2 = snd (add_conversation sid user_message transition_msg (phase_value SCREENING) now m1)
                   in ((reply transition_msg SCREENING False)
                         \<lparr>reply_selected_tool := Some (tool_value tool_enum),
                          question_number := Some 1\<rparr>, m2)))))"

text \<open>\<open>_map_response_to_score\<close>: the keys \<open>"3"\<close>, \<open>"2"\<close>, \<open>"1"\<close>, \<open>"0"\<close> of the scale
  are tried in this order; a missing scale is \<open>None\<close>, on which \<open>.get\<close> raises.\<close>

fun first_score :: "(string \<times> string list) list \<Rightarrow> string \<Rightarrow> (string \<times> int) list \<Rightarrow> int" where
  "first_score scale text [] = - 1"
| "first_score scale text (sv # rest) =
     (if any_in (or_else (map_of scale (fst sv)) []) text then snd sv
      else first_score scale text rest)"

definition map_response_to_score :: "BotConfig \<Rightarrow> string \<Rightarrow> string \<Rightarrow> py_error + int" where
  "map_response_to_score cfg user_message tool_name =
     (let text = lower user_message;
          scale = (if tool_name = ''GHQ12'' then ghqScale cfg else standardScale cfg)
      in case scale of
           None \<Rightarrow> Inl AttributeError
         | Some sc \<Rightarrow> Inr (first_score sc text [(''3'', 3), (''2'', 2), (''1'', 1), (''0'', 0)]))"

text \<open>The severity scan of \<open>_transition_to_results\<close>: the first band, in file order,
  whose range holds the total; \<open>"minimal"\<close> when none does.\<close>

definition find_severity :: "(string \<times> int \<times> int) list \<Rightarrow> int \<Rightarrow> string" where
  "find_severity bands tscore =
     (case find (\<lambda>(sev_name, low, high). low \<le> tscore \<and> tscore \<le> high) bands of
        None \<Rightarrow> ''minimal''
      | Some (sev_name, range_val) \<Rightarrow> sev_name)"

text \<open>The rest of the classification in \<open>_transition_to_results\<close>: \<open>"normal"\<close> is
  renamed \<open>"minimal"\<close>; when the results table has no entry (or an empty one) for the
  severity, \<open>"moderately_severe"\<close> becomes \<open>"severe"\<close> with that entry, and any other
  severity keeps its name and takes the \<open>"moderate"\<close> entry. The pair is the final
  \<open>severity\<close> and \<open>result_config\<close>.\<close>

definition classify :: "BotConfig \<Rightarrow> string \<Rightarrow> int \<Rightarrow> string \<times> ResultEntry" where
  "classify cfg tool_name tscore =
     (let found = find_severity (thresholds_of cfg tool_name) tscore;
          severity1 = (if found = ''normal'' then ''minimal'' else found);
          entry1 = result_entry cfg severity1
      in if entry1 = empty_entry
         then (if severity1 = ''moderately_severe'' then (''severe'', result_entry cfg ''severe'')
               else (severity1, result_entry cfg ''moderate''))
         else (severity1, entry1))"

text \<open>\<open>full_response\<close>: the entry's message, followed by one suggestion when the entry
  has any. \<open>random.choice(suggestions)\<close> is the element at a position \<open>rnd\<close> supplied by
  the caller, reduced modulo the length.\<close>

definition full_response :: "ResultEntry \<Rightarrow> nat \<Rightarrow> string" where
  "full_response result_config rnd =
     (let msg = or_else (result_message result_config) [];
          suggs = or_else (suggestions result_config) [];
          sugg_text = (if suggs \<noteq> []
                       then [CHR 0x0A, CHR 0x0A] @ ''Suggestion: '' @ suggs ! (rnd mod length suggs)
                       else [])
      in msg @ sugg_text)"

definition transition_to_results ::
  "BotConfig \<Rightarrow> string \<Rightarrow> string \<Rightarrow> SessionData \<Rightarrow> nat \<Rightarrow> int \<Rightarrow> SessionManager
     \<Rightarrow> Reply \<times> SessionManager" where
  "transition_to_results cfg sid user_message session rnd now m =
     (case update_session sid [current_phase_str (phase_value RESULTS), completed_upd True] now m of
        (Inl e, m1) \<Rightarrow> (get_error_response (handle sid session m1) e, m1)
      | (Inr ok, m1) \<Rightarrow>
          (let session1 = handle sid session m1;
               tscore = get_total_score session1
           in case selected_tool session1 of
                None \<Rightarrow> (get_error_response session1 AttributeError, m1)
              | Some tool \<Rightarrow>
                  (let tool_name = tool_name_of tool;
                       severity = fst (classify cfg tool_name tscore);
                       result_config = snd (classify cfg tool_name tscore);
                       text = full_response result_config rnd;
                       m2 = snd (add_conversation sid user_message text (phase_value RESULTS) now m1)
                   in ((reply text RESULTS False)
                         \<lparr>total_score := Some tscore, severity_level := Some severity,
                          reply_completed := Some True\<rparr>, m2))))"

definition handle_crisis_response ::
  "string \<Rightarrow> string \<Rightarrow> CrisisResponse \<Rightarrow> int \<Rightarrow> SessionManager \<Rightarrow> Reply \<times> SessionManager" where
  "handle_crisis_response sid user_message crisis_response now m =
     (case update_session sid
             [crisis_detected_upd True, current_phase_str (phase_value CRISIS_RESPONSE)] now m of
        (Inl e, m1) \<Rightarrow> (error_only e, m1)
      | (Inr ok, m1) \<Rightarrow>
          (let crisis_message = message crisis_response;
               m2 = snd (add_conversation sid user_message crisis_message (phase_value CRISIS_RESPONSE) now m1)
           in ((reply crisis_message CRISIS_RESPONSE True)\<lparr>next_action := Some ''stop''\<rparr>, m2)))"

definition handle_phq9_q9_crisis ::
  "SafetyMonitor \<Rightarrow> string \<Rightarrow> string \<Rightarrow> SessionData \<Rightarrow> int \<Rightarrow> int \<Rightarrow> SessionManager
     \<Rightarrow> Reply \<times> SessionManager" where
  "handle_phq9_q9_crisis sm sid user_message session score now m =
     (case update_session sid
             [crisis_detected_upd True, current_phase_str (phase_value CRISIS_RESPONSE)] now m of
        (Inl e, m1) \<Rightarrow> (error_only e, m1)
      | (Inr ok, m1) \<Rightarrow>
          (let m2 = snd (add_response sid ''phq9_9'' user_message score now m1);
               crisis_message = get_crisis_message sm;
               m3 = snd (add_conversation sid user_message crisis_message (phase_value CRISIS_RESPONSE) now m2)
           in ((reply crisis_message CRISIS_RESPONSE True)\<lparr>crisis_trigger := Some ''PHQ9_Q9''\<rparr>, m3)))"

definition handle_screening_phase ::
  "BotConfig \<Rightarrow> SafetyMonitor \<Rightarrow> string \<Rightarrow> string \<Rightarrow> SessionData \<Rightarrow> nat \<Rightarrow> int \<Rightarrow> SessionManager
     \<Rightarrow> Reply \<times> SessionManager" where
  "handle_screening_phase cfg sm sid user_message session rnd now m =
     (case selected_tool session of
        None \<Rightarrow>
          (case handle_unknown_phase cfg sid user_message session now m of
             (Inl e, m1) \<Rightarrow> (get_error_response (handle sid session m1) e, m1)
           | (Inr r, m1) \<Rightarrow> (r, m1))
      | Some tool \<Rightarrow>
          (let tool_name = tool_name_of tool;
               qs = questions_of cfg tool_name;
               current_idx = length (responses session)
           in case map_response_to_score cfg user_message tool_name of
                Inl e \<Rightarrow> (get_error_response session e, m)
              | Inr score \<Rightarrow>
                  if score = - 1 then
                    (let clarify_msg = or_else (answerMapping_clarifyPrompt cfg) ''Could you clarify?'';
                         m1 = snd (add_conversation sid user_message clarify_msg (phase_value SCREENING) now m)
                     in (reply clarify_msg SCREENING False, m1))
                  else if tool_name = ''PHQ9'' \<and> crisis_index_of cfg tool_name \<noteq> None
                          \<and> int current_idx = the (crisis_index_of cfg tool_name) \<and> score > 0 then
                    handle_phq9_q9_crisis sm sid user_message session score now m
                  else
                    (let qid = lower tool_name @ ''_'' @ string_of_nat (current_idx + 1);
                         m1 = snd (add_response sid qid user_message score now m);
                         next_idx = current_idx + 1
                     in if next_idx < length qs then
                          (let next_q = qs ! next_idx;
                               m2 = snd (add_conversation sid user_message next_q (phase_value SCREENING) now m1)
                           in ((reply next_q SCREENING False)\<lparr>question_number := Some (next_idx + 1)\<rparr>, m2))
                        else transition_to_results cfg sid user_message (handle sid session m1) rnd now m1)))"

subsection \<open>process\_user\_message\<close>

definition process_user_message ::
  "BotConfig \<Rightarrow> SafetyMonitor \<Rightarrow> string \<Rightarrow> string \<Rightarrow> nat \<Rightarrow> int \<Rightarrow> SessionManager
     \<Rightarrow> Reply \<times> SessionManager" where
  "process_user_message cfg sm sid user_message rnd now m =
     (case get_session sid now m of
        (None, m1) \<Rightarrow> (not_found_reply, m1)
      | (Some session, m1) \<Rightarrow>
          (let crisis_response = check_for_crisis sm (Str user_message) now in
           if requires_override crisis_response then
             handle_crisis_response sid user_message crisis_response now m1
           else if crisis_detected session then
             ((reply (get_crisis_message sm) CRISIS_RESPONSE True)\<lparr>next_action := Some ''stop''\<rparr>, m1)
           else
             (case current_phase session of
                GREETING \<Rightarrow> handle_greeting_phase cfg sid user_message session now m1
              | TRIAGE \<Rightarrow> handle_triage_phase cfg sid user_message session now m1
              | SCREENING \<Rightarrow> handle_screening_phase cfg sm sid user_message session rnd now m1
              | RESULTS \<Rightarrow> (reply (or_else (intro_exitResponse cfg) ''Take care.'') RESULTS False, m1)
              | CRISIS_RESPONSE \<Rightarrow> (reply (get_crisis_message sm) CRISIS_RESPONSE True, m1))))"

section \<open>Sequences of store operations\<close>

text \<open>The public operations of the store, each run at an instant. A sequence stops at
  a \<open>create_session\<close> whose identifier loop has not ended, since it never returns.\<close>

datatype store_op =
    Create "string option" "string option" "string list"
  | Get string
  | Update string "update list"
  | AddResponse string string string int
  | AddConversation string string string string
  | Delete string
  | Cleanup
  | ClearAll

fun apply_op :: "store_op \<Rightarrow> int \<Rightarrow> SessionManager \<Rightarrow> bool \<times> SessionManager" where
  "apply_op (Create name ctry draws) now m =
     (fst (create_session name ctry draws now m) \<noteq> None, snd (create_session name ctry draws now m))"
| "apply_op (Get sid) now m = (True, snd (get_session sid now m))"
| "apply_op (Update sid updates) now m = (True, snd (update_session sid updates now m))"
| "apply_op (AddResponse sid qid text score) now m = (True, snd (add_response sid qid text score now m))"
| "apply_op (AddConversation sid um ar ph) now m = (True, snd (add_conversation sid um ar ph now m))"
| "apply_op (Delete sid) now m = (True, snd (delete_session sid m))"
| "apply_op Cleanup now m = (True, snd (cleanup_expired_sessions now m))"
| "apply_op ClearAll now m = (True, clear_all_sessions m)"

fun run_ops :: "(store_op \<times> int) list \<Rightarrow> SessionManager \<Rightarrow> SessionManager" where
  "run_ops [] m = m"
| "run_ops (x # rest) m =
     (if fst (apply_op (fst x) (snd x) m) then run_ops rest (snd (apply_op (fst x) (snd x) m))
      else snd (apply_op (fst x) (snd x) m))"


section \<open>Concrete inputs\<close>

definition demo_store :: SessionManager where
  "demo_store = \<lparr> timeout_minutes = 30, max_sessions = 2,
       sessions = [(''s1'', new_SessionData ''s1'' None None 0)] \<rparr>"


definition three_creates :: "(store_op \<times> int) list" where
  "three_creates = [(Create None None [''s1''], 0),
                    (Create None None [''s2''], 5 * minute),
                    (Create None None [''s2'', ''s3''], 10 * minute)]"

definition demo_monitor :: SafetyMonitor where
  "demo_monitor = \<lparr> critical_triggers = [''kill myself'', ''suicide''],
                     crisis_response_message = ''Please call your local emergency number.'' \<rparr>"

text \<open>The table after the stored object \<open>sid\<close> has taken the state \<open>s\<close>.\<close>

definition put_session :: "string \<Rightarrow> SessionData \<Rightarrow> SessionManager \<Rightarrow> SessionManager" where
  "put_session sid s m = m\<lparr>sessions := AList.update sid s (sessions m)\<rparr>"

definition demo_config :: BotConfig where
  "demo_config =
     \<lparr> intro_welcome = ''Welcome. Shall we begin?'',
       intro_yesKeywords = [''yes'', ''sure''],
       intro_noKeywords = [''no''],
       intro_exitResponse = Some ''Take care of yourself.'',
       moodSelection_prompt = ''How have you been feeling?'',
       moodSelection_routing =
         [(''PHQ9'', [''sad'', ''down'']), (''GAD7'', [''anxious'']), (''GHQ12'', [''stressed''])],
       questionnaires =
         [(''PHQ9'', \<lparr> questions = [''Little interest?'', ''Thoughts of self-harm?''],
                        crisisQuestionIndex = Some 1,
                        thresholds = [(''minimal'', 0, 1), (''mild'', 2, 3), (''moderate'', 4, 6)] \<rparr>),
          (''GAD7'', \<lparr> questions = [''Feeling nervous?'', ''Unable to stop worrying?''],
                        crisisQuestionIndex = Some 0,
                        thresholds = [(''minimal'', 0, 1), (''mild'', 2, 3), (''severe'', 4, 5)] \<rparr>),
          (''GHQ12'', \<lparr> questions = [''Able to concentrate?''],
                         crisisQuestionIndex = None,
                         thresholds = [(''normal'', 0, 1), (''moderate'', 2, 3)] \<rparr>)],
       answerMapping_clarifyPrompt = Some ''Could you say how often?'',
       standardScale =
         Some [(''0'', [''not at all'']), (''1'', [''several days'']),
               (''2'', [''more than half'']), (''3'', [''nearly every day''])],
       ghqScale =
         Some [(''0'', [''better'']), (''1'', [''same'']), (''2'', [''worse'']), (''3'', [''much worse''])],
       results =
         [(''minimal'', \<lparr> result_message = Some ''Minimal symptoms.'', suggestions = Some [] \<rparr>),
          (''mild'', \<lparr> result_message = Some ''Mild symptoms.'', suggestions = Some [''Take a walk.''] \<rparr>),
          (''moderate'', \<lparr> result_message = Some ''Moderate symptoms.'', suggestions = Some [] \<rparr>),
          (''severe'', \<lparr> result_message = Some ''Severe symptoms.'', suggestions = Some [] \<rparr>)] \<rparr>"

definition screening_session :: SessionData where
  "screening_session =
     (new_SessionData ''s1'' None None 0)
       \<lparr> current_phase := SCREENING, selected_tool := Some PHQ9,
         conversation_history :=
           [\<lparr>entry_user_message = ''sad'', entry_ai_response = ''Little interest?'',
             entry_phase = ''SCREENING'', entry_timestamp = 0\<rparr>] \<rparr>"

definition screening_store :: SessionManager where
  "screening_store = \<lparr> timeout_minutes = 30, max_sessions = 1000,
                        sessions = [(''s1'', screening_session)] \<rparr>"

text \<open>A property of every stored session, which may depend on its key.\<close>

definition every_session :: "(string \<Rightarrow> SessionData \<Rightarrow> bool) \<Rightarrow> SessionManager \<Rightarrow> bool" where
  "every_session Q m = (\<forall>k s. map_of (sessions m) k = Some s \<longrightarrow> Q k s)"

text \<open>A conversation: the messages sent for one session, each with the random draw
  and the instant of its call.\<close>

fun process_messages ::
  "BotConfig \<Rightarrow> SafetyMonitor \<Rightarrow> string \<Rightarrow> (string \<times> nat \<times> int) list \<Rightarrow> SessionManager
     \<Rightarrow> Reply list \<times> SessionManager" where
  "process_messages cfg sm sid [] m = ([], m)"
| "process_messages cfg sm sid (x # rest) m =
     (fst (process_user_message cfg sm sid (fst x) (fst (snd x)) (snd (snd x)) m)
        # fst (process_messages cfg sm sid rest
                 (snd (process_user_message cfg sm sid (fst x) (fst (snd x)) (snd (snd x)) m))),
      snd (process_messages cfg sm sid rest
             (snd (process_user_message cfg sm sid (fst x) (fst (snd x)) (snd (snd x)) m))))"

definition crisis_session :: SessionData where
  "crisis_session = screening_session\<lparr>crisis_detected := True, current_phase := CRISIS_RESPONSE\<rparr>"

definition crisis_store :: SessionManager where
  "crisis_store = \<lparr> timeout_minutes = 30, max_sessions = 1000,
                     sessions = [(''s1'', crisis_session)] \<rparr>"

definition phq9_q2_session :: SessionData where
  "phq9_q2_session =
     screening_session
       \<lparr> responses := [\<lparr>question_id = ''phq9_1'', user_text = ''several days'',
                         mapped_score = 1, timestamp = 0\<rparr>] \<rparr>"

definition phq9_q2_store :: SessionManager where
  "phq9_q2_store = \<lparr> timeout_minutes = 30, max_sessions = 1000,
                      sessions = [(''s1'', phq9_q2_session)] \<rparr>"

definition gad7_session :: SessionData where
  "gad7_session = screening_session\<lparr>selected_tool := Some GAD7\<rparr>"

definition gad7_store :: SessionManager where
  "gad7_store = \<lparr> timeout_minutes = 30, max_sessions = 1000,
                   sessions = [(''s1'', gad7_session)] \<rparr>"

text \<open>What the specification calls the trimmed text, stated without \<open>strip\<close>:
  \<open>y\<close> is \<open>x\<close> without a run of white space at its start and another at its end, and is
  empty or has no white space at either end.\<close>

definition trimmed_to :: "string \<Rightarrow> string \<Rightarrow> bool" where
  "trimmed_to x y =
     (\<exists>pre post. x = pre @ y @ post \<and> list_all is_space pre \<and> list_all is_space post
        \<and> (y = [] \<or> (\<not> is_space (hd y) \<and> \<not> is_space (last y))))"

definition spaced_monitor :: SafetyMonitor where
  "spaced_monitor = \<lparr> critical_triggers = [''end it ''],
                       crisis_response_message = ''Please call your local emergency number.'' \<rparr>"

text \<open>The reply to a session in crisis: the crisis message, phase
  \<open>CRISIS_RESPONSE\<close>, the flag and the action \<open>stop\<close>.\<close>

definition crisis_stop_reply :: "SafetyMonitor \<Rightarrow> Reply" where
  "crisis_stop_reply sm =
     (reply (crisis_response_message sm) CRISIS_RESPONSE True)\<lparr>next_action := Some ''stop''\<rparr>"

text \<open>The history entry that records a crisis reply.\<close>

definition crisis_entry :: "SafetyMonitor \<Rightarrow> string \<Rightarrow> int \<Rightarrow> ConversationEntry" where
  "crisis_entry sm user_message now =
     \<lparr> entry_user_message = user_message, entry_ai_response = crisis_response_message sm,
       entry_phase = ''CRISIS_RESPONSE'', entry_timestamp = now \<rparr>"

text \<open>What a session in crisis may become: the flag stays set; identity, metadata,
  selected tool, responses and completion are the given ones; the phase is the given one
  or \<open>CRISIS_RESPONSE\<close>; the history is the given one followed by crisis replies only.\<close>

definition crisis_frozen :: "SafetyMonitor \<Rightarrow> SessionData \<Rightarrow> SessionData \<Rightarrow> bool" where
  "crisis_frozen sm s s' =
     (crisis_detected s' \<and> session_id s' = session_id s \<and> user_name s' = user_name s
      \<and> country s' = country s \<and> start_time s' = start_time s
      \<and> selected_tool s' = selected_tool s \<and> responses s' = responses s
      \<and> has_past_diagnosis s' = has_past_diagnosis s \<and> completed s' = completed s
      \<and> (current_phase s' = current_phase s \<or> current_phase s' = CRISIS_RESPONSE)
      \<and> (\<exists>extra. conversation_history s' = conversation_history s @ extra
             \<and> list_all (\<lambda>e. entry_ai_response e = crisis_response_message sm
                               \<and> entry_phase e = ''CRISIS_RESPONSE'') extra))"

text \<open>A GAD7 session that has answered the first of the two questions with score 3.\<close>

definition gad7_q2_session :: SessionData where
  "gad7_q2_session =
     gad7_session
       \<lparr> responses := [\<lparr>question_id = ''gad7_1'', user_text = ''nearly every day'',
                         mapped_score = 3, timestamp = 0\<rparr>] \<rparr>"

definition gad7_q2_store :: SessionManager where
  "gad7_q2_store = \<lparr> timeout_minutes = 30, max_sessions = 1000,
                      sessions = [(''s1'', gad7_q2_session)] \<rparr>"

text \<open>A band \<open>(name, low, high)\<close> holds a total.\<close>

definition in_band :: "int \<Rightarrow> string \<times> int \<times> int \<Rightarrow> bool" where
  "in_band tscore band = (fst (snd band) \<le> tscore \<and> tscore \<le> snd (snd band))"

text \<open>The severity reported for a band name found by the scan, and the results entry
  whose message is shown (\<open>_transition_to_results\<close> after the scan): \<open>"normal"\<close> is
  reported as \<open>"minimal"\<close>; a name without a (non-empty) entry in the results table is
  reported unchanged and shown with the \<open>"moderate"\<close> entry, except
  \<open>"moderately_severe"\<close>, which is reported as \<open>"severe"\<close> and shown with that entry.\<close>

definition reported_severity :: "BotConfig \<Rightarrow> string \<Rightarrow> string" where
  "reported_severity cfg found =
     (if found = ''normal'' then ''minimal''
      else if found = ''moderately_severe'' \<and> result_entry cfg found = empty_entry then ''severe''
      else found)"

definition shown_entry :: "BotConfig \<Rightarrow> string \<Rightarrow> ResultEntry" where
  "shown_entry cfg found =
     (if result_entry cfg (if found = ''normal'' then ''minimal'' else found) \<noteq> empty_entry
      then result_entry cfg (if found = ''normal'' then ''minimal'' else found)
      else if found = ''moderately_severe'' then result_entry cfg ''severe''
      else result_entry cfg ''moderate'')"

text \<open>A session brought to \<open>TRIAGE\<close> by the flow that then holds a response: a new
  session is greeted, answers \<open>yes\<close>, and then \<open>POST /api/score/calculate\<close> (app.py) is
  called for it with one response and the screening tool \<open>"PHQ-9"\<close>. That endpoint looks
  the session up, adds the responses and then calls \<open>update_session\<close>, where
  \<open>ScreeningTool("PHQ-9")\<close> raises \<open>ValueError\<close> before any field is set.\<close>

definition empty_store :: SessionManager where
  "empty_store = \<lparr> timeout_minutes = 30, max_sessions = 1000, sessions = [] \<rparr>"

definition greeted_store :: SessionManager where
  "greeted_store =
     snd (process_user_message demo_config demo_monitor ''s1'' ''yes'' 0 (2 * minute)
       (snd (process_user_message demo_config demo_monitor ''s1'' ''hello'' 0 minute
          (snd (create_session None None [''s1''] 0 empty_store)))))"

definition scored_store :: SessionManager where
  "scored_store =
     snd (add_response ''s1'' ''phq9_1'' ''several days'' 1 (3 * minute)
       (snd (get_session ''s1'' (3 * minute) greeted_store)))"

definition stale_triage_store :: SessionManager where
  "stale_triage_store =
     snd (update_session ''s1''
            [selected_tool_str ''PHQ-9'', current_phase_str ''RESULTS'', completed_upd True]
            (3 * minute) scored_store)"

(*DEFS-END*)

section \<open>Properties of the session store\<close>


lemma delete_as_filter: "AList.delete k xs = filter (\<lambda>p. fst p \<noteq> k) xs"
  by (induction xs) auto

lemma fold_delete_filter: "fold AList.delete ks xs = filter (\<lambda>p. fst p \<notin> set ks) xs"
proof (induction ks arbitrary: xs)
  case Nil
  then show ?case by simp
next
  case (Cons k ks)
  have "fold AList.delete (k # ks) xs = filter (\<lambda>p. fst p \<notin> set ks) (filter (\<lambda>p. fst p \<noteq> k) xs)"
    by (simp add: Cons delete_as_filter)
  also have "\<dots> = filter (\<lambda>p. fst p \<notin> set (k # ks)) xs"
    by (induction xs) auto
  finally show ?case .
qed






lemma draw_session_id_total: "\<exists>d\<in>set ds. d \<notin> fst ` set tbl \<Longrightarrow> \<exists>d. draw_session_id ds tbl = Some d"
  by (induction ds) auto


lemma key_unique:
  "distinct (map fst al) \<Longrightarrow> (k, a) \<in> set al \<Longrightarrow> (k, b) \<in> set al \<Longrightarrow> a = b"
  by (induction al) (auto simp: image_iff)

lemma cleanup_sessions:
  assumes "distinct (map fst (sessions m))"
  shows "sessions (snd (cleanup_expired_sessions now m)) =
         filter (\<lambda>p. \<not> is_expired (snd p) (timeout_minutes m) now) (sessions m)"
proof -
  define E where "E = (\<lambda>p::string \<times> SessionData. is_expired (snd p) (timeout_minutes m) now)"
  have iff: "fst p \<notin> fst ` set (filter E (sessions m)) \<longleftrightarrow> \<not> E p"
    if "p \<in> set (sessions m)" for p
  proof
    assume "fst p \<notin> fst ` set (filter E (sessions m))"
    then show "\<not> E p" using that by force
  next
    assume n: "\<not> E p"
    show "fst p \<notin> fst ` set (filter E (sessions m))"
    proof
      assume "fst p \<in> fst ` set (filter E (sessions m))"
      then obtain q where q: "q \<in> set (sessions m)" "E q" "fst q = fst p" by auto
      have "snd q = snd p"
        using key_unique[OF assms, of "fst p" "snd q" "snd p"] q that
        by (metis prod.collapse)
      then have "q = p" using q(3) by (simp add: prod_eq_iff)
      then show False using q(2) n by simp
    qed
  qed
  have "filter (\<lambda>p. fst p \<notin> fst ` set (filter E (sessions m))) (sessions m)
           = filter (\<lambda>p. \<not> E p) (sessions m)"
    by (rule filter_cong[OF refl]) (rule iff)
  moreover have "(\<lambda>(sid, s). is_expired s (timeout_minutes m) now) = E"
    by (auto simp: E_def)
  ultimately show ?thesis
    by (simp add: cleanup_expired_sessions_def fold_delete_filter E_def)
qed







lemma get_session_expired:
  "map_of (sessions m) sid = Some s \<Longrightarrow> is_expired s (timeout_minutes m) now \<Longrightarrow>
     get_session sid now m = (None, m\<lparr>sessions := AList.delete sid (sessions m)\<rparr>)"
  by (simp add: get_session_def)

lemma get_session_live:
  "map_of (sessions m) sid = Some s \<Longrightarrow> \<not> is_expired s (timeout_minutes m) now \<Longrightarrow>
     get_session sid now m = (Some (update_activity now s),
        m\<lparr>sessions := AList.update sid (update_activity now s) (sessions m)\<rparr>)"
  by (simp add: get_session_def)

lemma get_session_absent:
  "map_of (sessions m) sid = None \<Longrightarrow> get_session sid now m = (None, m)"
  by (simp add: get_session_def)

text \<open>
  Claim C10. \<open>delete_session\<close> returns \<open>True\<close> for every identifier present in the
  table and removes it, without any expiry check: for the same table and an instant at which
  the session is past its idle timeout, \<open>get_session\<close> reports it absent and
  \<open>update_session\<close>, \<open>add_response\<close> and \<open>add_conversation\<close> return \<open>False\<close>,
  while the deletion still succeeds.
\<close>

theorem delete_session_skips_expiry_check:
  assumes "map_of (sessions m) sid = Some s"
  shows "fst (delete_session sid m) = True
       \<and> sid \<notin> fst ` set (sessions (snd (delete_session sid m)))
       \<and> (is_expired s (timeout_minutes m) now \<longrightarrow>
            fst (get_session sid now m) = None
          \<and> fst (update_session sid us now m) = Inr False
          \<and> fst (add_response sid q t sc now m) = False
          \<and> fst (add_conversation sid um ar ph now m) = False)"
proof -
  have pres: "sid \<in> fst ` set (sessions m)"
    using assms by (metis map_of_eq_None_iff option.distinct(1))
  have "fst (delete_session sid m) = True" using pres by (simp add: delete_session_def)
  moreover have "sid \<notin> fst ` set (sessions (snd (delete_session sid m)))"
    using pres by (simp add: delete_session_def delete_notin_dom)
  moreover have "fst (get_session sid now m) = None
          \<and> fst (update_session sid us now m) = Inr False
          \<and> fst (add_response sid q t sc now m) = False
          \<and> fst (add_conversation sid um ar ph now m) = False"
    if "is_expired s (timeout_minutes m) now"
    using get_session_expired[OF assms that]
    by (simp add: update_session_def add_response_def add_conversation_def)
  ultimately show ?thesis by blast
qed

theorem delete_session_skips_expiry_check_witness:
  "map_of (sessions demo_store) ''s1'' = Some (new_SessionData ''s1'' None None 0)
   \<and> is_expired (new_SessionData ''s1'' None None 0) (timeout_minutes demo_store) (31 * minute)
   \<and> fst (get_session ''s1'' (31 * minute) demo_store) = None
   \<and> fst (delete_session ''s1'' demo_store) = True"
proof -
  have h: "map_of (sessions demo_store) ''s1'' = Some (new_SessionData ''s1'' None None 0)"
    by (simp add: demo_store_def)
  have e: "is_expired (new_SessionData ''s1'' None None 0) (timeout_minutes demo_store) (31 * minute)"
    by (simp add: is_expired_def new_SessionData_def demo_store_def minute_def)
  show ?thesis
    using h e delete_session_skips_expiry_check[OF h, of "31 * minute" "[]" "''''" "''''" 0 "''''" "''''" "''''"]
    by blast
qed

text \<open>
  Claim C4. For a stored session: a lookup at an instant more than the timeout after its
  \<open>last_activity\<close> reports it absent and removes it from the table; a lookup within the
  timeout (\<open>now - last_activity \<le> timeout\<close>) returns the session with \<open>last_activity\<close>
  set to the instant of the lookup, stores it so, and every later lookup within one timeout
  of that instant succeeds again. The sweep keeps at an instant exactly the sessions that a
  lookup at that instant would return: both use \<open>is_expired\<close>.
\<close>

theorem get_session_idle_timeout:
  assumes "map_of (sessions m) sid = Some s"
  shows "(now - last_activity s > timeout_minutes m * minute \<longrightarrow>
            fst (get_session sid now m) = None
          \<and> sid \<notin> fst ` set (sessions (snd (get_session sid now m))))
       \<and> (now - last_activity s \<le> timeout_minutes m * minute \<longrightarrow>
            fst (get_session sid now m) = Some (s\<lparr>last_activity := now\<rparr>)
          \<and> map_of (sessions (snd (get_session sid now m))) sid = Some (s\<lparr>last_activity := now\<rparr>)
          \<and> (\<forall>later. later - now \<le> timeout_minutes m * minute \<longrightarrow>
                fst (get_session sid later (snd (get_session sid now m)))
                  = Some (s\<lparr>last_activity := later\<rparr>)))
       \<and> (distinct (map fst (sessions m)) \<longrightarrow>
            (sid \<in> fst ` set (sessions (snd (cleanup_expired_sessions now m)))
               \<longleftrightarrow> fst (get_session sid now m) \<noteq> None))"
proof (intro conjI impI)
  assume "now - last_activity s > timeout_minutes m * minute"
  then have e: "is_expired s (timeout_minutes m) now" by (simp add: is_expired_def)
  show "fst (get_session sid now m) = None"
    by (simp add: get_session_expired[OF assms e])
  show "sid \<notin> fst ` set (sessions (snd (get_session sid now m)))"
    by (simp add: get_session_expired[OF assms e] delete_notin_dom)
next
  assume "now - last_activity s \<le> timeout_minutes m * minute"
  then have l: "\<not> is_expired s (timeout_minutes m) now" by (simp add: is_expired_def)
  note g = get_session_live[OF assms l]
  show "fst (get_session sid now m) = Some (s\<lparr>last_activity := now\<rparr>)"
    by (simp add: g update_activity_def)
  show st: "map_of (sessions (snd (get_session sid now m))) sid = Some (s\<lparr>last_activity := now\<rparr>)"
    by (simp add: g update_activity_def update_conv')
  show "\<forall>later. later - now \<le> timeout_minutes m * minute \<longrightarrow>
          fst (get_session sid later (snd (get_session sid now m))) = Some (s\<lparr>last_activity := later\<rparr>)"
  proof (intro allI impI)
    fix later assume "later - now \<le> timeout_minutes m * minute"
    then have l2: "\<not> is_expired (s\<lparr>last_activity := now\<rparr>) (timeout_minutes (snd (get_session sid now m))) later"
      by (simp add: is_expired_def g)
    show "fst (get_session sid later (snd (get_session sid now m))) = Some (s\<lparr>last_activity := later\<rparr>)"
      by (simp add: get_session_live[OF st l2] update_activity_def)
  qed
next
  assume d: "distinct (map fst (sessions m))"
  have mem: "(sid, s) \<in> set (sessions m)" using assms by (rule map_of_SomeD)
  have "sid \<in> fst ` set (sessions (snd (cleanup_expired_sessions now m)))
          \<longleftrightarrow> \<not> is_expired s (timeout_minutes m) now"
  proof
    assume "sid \<in> fst ` set (sessions (snd (cleanup_expired_sessions now m)))"
    then obtain s' where s': "(sid, s') \<in> set (sessions m)" "\<not> is_expired s' (timeout_minutes m) now"
      by (auto simp: cleanup_sessions[OF d])
    have "s' = s" using key_unique[OF d s'(1) mem] .
    then show "\<not> is_expired s (timeout_minutes m) now" using s'(2) by simp
  next
    assume "\<not> is_expired s (timeout_minutes m) now"
    then show "sid \<in> fst ` set (sessions (snd (cleanup_expired_sessions now m)))"
      using mem by (force simp: cleanup_sessions[OF d])
  qed
  moreover have "fst (get_session sid now m) \<noteq> None \<longleftrightarrow> \<not> is_expired s (timeout_minutes m) now"
    using assms by (simp add: get_session_def)
  ultimately show "sid \<in> fst ` set (sessions (snd (cleanup_expired_sessions now m)))
               \<longleftrightarrow> fst (get_session sid now m) \<noteq> None" by simp
qed

theorem get_session_idle_timeout_witness:
  "map_of (sessions demo_store) ''s1'' = Some (new_SessionData ''s1'' None None 0)
   \<and> fst (get_session ''s1'' (31 * minute) demo_store) = None
   \<and> fst (get_session ''s1'' (30 * minute) demo_store)
        = Some ((new_SessionData ''s1'' None None 0)\<lparr>last_activity := 30 * minute\<rparr>)
   \<and> fst (get_session ''s1'' (60 * minute) (snd (get_session ''s1'' (30 * minute) demo_store)))
        = Some ((new_SessionData ''s1'' None None 0)\<lparr>last_activity := 60 * minute\<rparr>)
   \<and> ''s1'' \<notin> fst ` set (sessions (snd (cleanup_expired_sessions (31 * minute) demo_store)))"
proof -
  have h: "map_of (sessions demo_store) ''s1'' = Some (new_SessionData ''s1'' None None 0)"
    by (simp add: demo_store_def)
  have d: "distinct (map fst (sessions demo_store))" by (simp add: demo_store_def)
  have la: "last_activity (new_SessionData ''s1'' None None 0) = 0"
    and tm: "timeout_minutes demo_store = 30"
    by (simp_all add: new_SessionData_def demo_store_def)
  have e: "31 * minute - 0 > 30 * minute" "30 * minute - 0 \<le> 30 * minute"
       "60 * minute - 30 * minute \<le> 30 * minute"
    by (simp_all add: minute_def)
  from get_session_idle_timeout[OF h, of "31 * minute"] get_session_idle_timeout[OF h, of "30 * minute"]
  show ?thesis using h d e unfolding la tm by blast
qed








lemma get_session_Some_lookup:
  "get_session sid now m = (Some s, m1) \<Longrightarrow> map_of (sessions m1) sid = Some s"
  by (auto simp: get_session_def update_conv' split: option.splits if_splits)





















lemma run_three_creates:
  "run_ops three_creates (new_SessionManager (Some 30) (Some 2) 30 1000) =
     \<lparr> timeout_minutes = 30, max_sessions = 2,
       sessions = [(''s2'', new_SessionData ''s2'' None None (5 * minute)),
                   (''s3'', new_SessionData ''s3'' None None (10 * minute))] \<rparr>"
  by (simp add: three_creates_def new_SessionManager_def or_default_def create_session_def
      evict_for_create_def cleanup_expired_sessions_def is_expired_def new_SessionData_def
      minute_def oldest_session_id_def Let_def)



section \<open>Properties of the crisis detector\<close>

lemma dropWhile_keeps_word:
  assumes "t \<noteq> []" "\<not> P (hd t)"
  shows "dropWhile P (ps @ t @ ss) = dropWhile P ps @ t @ ss"
proof (induction ps)
  case Nil
  show ?case using assms by (cases t) auto
next
  case (Cons a ps)
  then show ?case by simp
qed

lemma strip_keeps_word:
  assumes "t \<noteq> []" "\<not> is_space (hd t)" "\<not> is_space (last t)"
  shows "strip (ps @ t @ ss) = dropWhile is_space ps @ t @ rev (dropWhile is_space (rev ss))"
proof -
  have 1: "dropWhile is_space (ps @ t @ ss) = dropWhile is_space ps @ t @ ss"
    using assms(1,2) by (rule dropWhile_keeps_word)
  have r: "rev t \<noteq> []" "\<not> is_space (hd (rev t))" using assms by (simp_all add: hd_rev)
  have "dropWhile is_space (rev ss @ rev t @ rev (dropWhile is_space ps))
          = dropWhile is_space (rev ss) @ rev t @ rev (dropWhile is_space ps)"
    using r by (rule dropWhile_keeps_word)
  then show ?thesis by (simp add: strip_def 1)
qed

lemma sublist_strip: "sublist (strip s) s"
proof -
  have a: "suffix (dropWhile is_space s) s" by (rule suffix_dropWhile)
  have "suffix (dropWhile is_space (rev (dropWhile is_space s))) (rev (dropWhile is_space s))"
    by (rule suffix_dropWhile)
  then have "prefix (strip s) (dropWhile is_space s)"
    by (metis strip_def rev_rev_ident suffix_to_prefix)
  then obtain ss where "dropWhile is_space s = strip s @ ss" by (auto simp: prefix_def)
  moreover obtain ps where "s = ps @ dropWhile is_space s" using a by (auto simp: suffix_def)
  ultimately have "s = ps @ strip s @ ss" by simp
  then show ?thesis unfolding sublist_def by blast
qed

lemma sublist_strip_iff:
  assumes "t \<noteq> []" "\<not> is_space (hd t)" "\<not> is_space (last t)"
  shows "sublist t (strip s) \<longleftrightarrow> sublist t s"
proof
  assume "sublist t (strip s)"
  then show "sublist t s" using sublist_strip sublist_order.order_trans by blast
next
  assume "sublist t s"
  then obtain ps ss where "s = ps @ t @ ss" unfolding sublist_def by blast
  then have "strip s = dropWhile is_space ps @ t @ rev (dropWhile is_space (rev ss))"
    using strip_keeps_word[OF assms] by simp
  then show "sublist t (strip s)" unfolding sublist_def by blast
qed

declare check_for_crisis.simps [simp del]

lemma filter_nonempty_iff: "filter P xs \<noteq> [] \<longleftrightarrow> (\<exists>x\<in>set xs. P x)"
  by (simp add: filter_empty_conv)

lemmas string_eval = lower_def lower_char_def strip_def is_space_def sublist_Cons_right


lemma dropWhile_all: "list_all P xs \<Longrightarrow> dropWhile P xs = []"
  by (induction xs) auto

lemma strip_all_space: "list_all is_space x \<Longrightarrow> strip x = []"
  by (simp add: strip_def dropWhile_all)

lemma trimmed_to_strip: "trimmed_to x (strip x)"
proof -
  define z where "z = dropWhile is_space x"
  have x: "x = takeWhile is_space x @ z" by (simp add: z_def)
  have rz: "rev z = takeWhile is_space (rev z) @ dropWhile is_space (rev z)" by simp
  have st: "strip x = rev (dropWhile is_space (rev z))" by (simp add: strip_def z_def)
  have "z = rev (takeWhile is_space (rev z) @ dropWhile is_space (rev z))"
    by (simp only: takeWhile_dropWhile_id rev_rev_ident)
  also have "\<dots> = rev (dropWhile is_space (rev z)) @ rev (takeWhile is_space (rev z))"
    by (simp only: rev_append)
  finally have z: "z = strip x @ rev (takeWhile is_space (rev z))" unfolding st .
  have pre: "list_all is_space (takeWhile is_space x)"
    by (simp add: list_all_iff) (meson set_takeWhileD)
  have post: "list_all is_space (rev (takeWhile is_space (rev z)))"
    by (simp add: list_all_iff) (meson set_takeWhileD)
  have ends: "\<not> is_space (hd (strip x)) \<and> \<not> is_space (last (strip x))" if ne: "strip x \<noteq> []"
  proof -
    have dne: "dropWhile is_space (rev z) \<noteq> []" using ne st by simp
    have "last (strip x) = hd (dropWhile is_space (rev z))"
      using dne by (simp add: st last_rev)
    then have l: "\<not> is_space (last (strip x))" using hd_dropWhile[OF dne] by simp
    have zne: "z \<noteq> []" using z ne by auto
    have "hd z = hd (strip x)" using z ne by (metis hd_append2)
    then have "\<not> is_space (hd (strip x))" using hd_dropWhile[of is_space x] zne by (simp add: z_def)
    then show ?thesis using l by simp
  qed
  have "x = takeWhile is_space x @ strip x @ rev (takeWhile is_space (rev z))"
    using x z by simp
  then show ?thesis unfolding trimmed_to_def using pre post ends by blast
qed

lemma trimmed_to_unique: "trimmed_to x y \<Longrightarrow> y = strip x"
proof -
  assume "trimmed_to x y"
  then obtain pre post where x: "x = pre @ y @ post" and pre: "list_all is_space pre"
      and post: "list_all is_space post"
      and ends: "y = [] \<or> (\<not> is_space (hd y) \<and> \<not> is_space (last y))"
    unfolding trimmed_to_def by blast
  show ?thesis
  proof (cases "y = []")
    case True
    then have "list_all is_space x" using x pre post by simp
    then show ?thesis using True by (simp add: strip_all_space)
  next
    case False
    then have e: "\<not> is_space (hd y)" "\<not> is_space (last y)" using ends by auto
    have rp: "list_all is_space (rev post)" using post by (simp add: list_all_iff)
    have "strip x = dropWhile is_space pre @ y @ rev (dropWhile is_space (rev post))"
      unfolding x using strip_keeps_word[OF False e] .
    then show ?thesis using pre rp by (simp add: dropWhile_all)
  qed
qed

lemma trimmed_to_iff: "trimmed_to x y \<longleftrightarrow> y = strip x"
  using trimmed_to_unique trimmed_to_strip by blast

lemma lower_char_code_point:
  "(of_char (lower_char c) :: nat) =
     (if (65 \<le> (of_char c :: nat) \<and> (of_char c :: nat) \<le> 90)
         \<or> (192 \<le> (of_char c :: nat) \<and> (of_char c :: nat) \<le> 214)
         \<or> (216 \<le> (of_char c :: nat) \<and> (of_char c :: nat) \<le> 222)
      then of_char c + 32 else of_char c)"
proof (cases c)
  case (Char b0 b1 b2 b3 b4 b5 b6 b7)
  show ?thesis unfolding Char
    by (cases b0; cases b1; cases b2; cases b3; cases b4; cases b5; cases b6; cases b7;
        simp add: lower_char_def)
qed

lemma is_space_code_point:
  "is_space c \<longleftrightarrow> (of_char c :: nat) \<in> {9, 10, 11, 12, 13, 28, 29, 30, 31, 32, 133, 160}"
  by (auto simp: is_space_def Let_def)

text \<open>
  Claim C3, as the code has it. \<open>check_for_crisis\<close> returns a result on every argument;
  for an argument that is not a string, or is the empty string, it is the \<open>NONE\<close> result.
  \<open>lower\<close> adds 32 to the code point of each capital letter and leaves the other
  characters, and white space is the twelve code points listed. The lower-cased text has
  exactly one trimmed form. For a non-empty string the level is \<open>CRITICAL\<close> exactly when
  the lower-cased form of some configured trigger occurs as a contiguous substring of the
  trimmed, lower-cased text; the result then lists the matching triggers in configuration
  order, carries the configured crisis message and asks for the override; otherwise it is
  the \<open>NONE\<close> result. When no trigger is empty or starts or ends with white space, the
  level is \<open>CRITICAL\<close> exactly when some trigger occurs, case-insensitively, anywhere in
  the text.
\<close>

theorem check_for_crisis_trimmed_match:
  "check_for_crisis sm NotStr now = no_crisis now
   \<and> check_for_crisis sm (Str []) now = no_crisis now
   \<and> level (no_crisis now) = NONE \<and> requires_override (no_crisis now) = False
   \<and> length (lower text) = length text
   \<and> (\<forall>i<length text. (of_char (lower text ! i) :: nat) =
         (if (65 \<le> (of_char (text ! i) :: nat) \<and> (of_char (text ! i) :: nat) \<le> 90)
             \<or> (192 \<le> (of_char (text ! i) :: nat) \<and> (of_char (text ! i) :: nat) \<le> 214)
             \<or> (216 \<le> (of_char (text ! i) :: nat) \<and> (of_char (text ! i) :: nat) \<le> 222)
          then of_char (text ! i) + 32 else of_char (text ! i)))
   \<and> (\<forall>c. is_space c \<longleftrightarrow> (of_char c :: nat) \<in> {9, 10, 11, 12, 13, 28, 29, 30, 31, 32, 133, 160})
   \<and> (\<exists>trimmed. trimmed_to (lower text) trimmed \<and> (\<forall>y. trimmed_to (lower text) y \<longrightarrow> y = trimmed)
        \<and> (text \<noteq> [] \<longrightarrow>
             (level (check_for_crisis sm (Str text) now) = CRITICAL
                \<longleftrightarrow> (\<exists>t\<in>set (critical_triggers sm). sublist (lower t) trimmed))
           \<and> (level (check_for_crisis sm (Str text) now) = CRITICAL \<longrightarrow>
                check_for_crisis sm (Str text) now =
                  \<lparr> level = CRITICAL,
                    triggered_words = filter (\<lambda>t. sublist (lower t) trimmed) (critical_triggers sm),
                    message = crisis_response_message sm,
                    crisis_timestamp = now, requires_override = True \<rparr>)
           \<and> (level (check_for_crisis sm (Str text) now) \<noteq> CRITICAL \<longrightarrow>
                check_for_crisis sm (Str text) now = no_crisis now)
           \<and> ((\<forall>t\<in>set (critical_triggers sm).
                  t \<noteq> [] \<and> \<not> is_space (hd (lower t)) \<and> \<not> is_space (last (lower t))) \<longrightarrow>
                (level (check_for_crisis sm (Str text) now) = CRITICAL
                   \<longleftrightarrow> (\<exists>t\<in>set (critical_triggers sm). sublist (lower t) (lower text))))))"
proof -
  have basic: "check_for_crisis sm NotStr now = no_crisis now"
      "check_for_crisis sm (Str []) now = no_crisis now"
      "level (no_crisis now) = NONE" "requires_override (no_crisis now) = False"
    by (simp_all add: check_for_crisis.simps no_crisis_def)
  have len: "length (lower text) = length text" by (simp add: lower_def)
  have low: "\<forall>i<length text. (of_char (lower text ! i) :: nat) =
         (if (65 \<le> (of_char (text ! i) :: nat) \<and> (of_char (text ! i) :: nat) \<le> 90)
             \<or> (192 \<le> (of_char (text ! i) :: nat) \<and> (of_char (text ! i) :: nat) \<le> 214)
             \<or> (216 \<le> (of_char (text ! i) :: nat) \<and> (of_char (text ! i) :: nat) \<le> 222)
          then of_char (text ! i) + 32 else of_char (text ! i))"
    by (simp add: lower_def lower_char_code_point)
  have sp: "\<forall>c. is_space c \<longleftrightarrow> (of_char c :: nat) \<in> {9, 10, 11, 12, 13, 28, 29, 30, 31, 32, 133, 160}"
    using is_space_code_point by blast
  define tr where "tr = strip (lower text)"
  have t1: "trimmed_to (lower text) tr" unfolding tr_def by (rule trimmed_to_strip)
  have t2: "\<forall>y. trimmed_to (lower text) y \<longrightarrow> y = tr"
    unfolding tr_def using trimmed_to_unique by blast
  have main: "(level (check_for_crisis sm (Str text) now) = CRITICAL
                \<longleftrightarrow> (\<exists>t\<in>set (critical_triggers sm). sublist (lower t) tr))
           \<and> (level (check_for_crisis sm (Str text) now) = CRITICAL \<longrightarrow>
                check_for_crisis sm (Str text) now =
                  \<lparr> level = CRITICAL,
                    triggered_words = filter (\<lambda>t. sublist (lower t) tr) (critical_triggers sm),
                    message = crisis_response_message sm,
                    crisis_timestamp = now, requires_override = True \<rparr>)
           \<and> (level (check_for_crisis sm (Str text) now) \<noteq> CRITICAL \<longrightarrow>
                check_for_crisis sm (Str text) now = no_crisis now)
           \<and> ((\<forall>t\<in>set (critical_triggers sm).
                  t \<noteq> [] \<and> \<not> is_space (hd (lower t)) \<and> \<not> is_space (last (lower t))) \<longrightarrow>
                (level (check_for_crisis sm (Str text) now) = CRITICAL
                   \<longleftrightarrow> (\<exists>t\<in>set (critical_triggers sm). sublist (lower t) (lower text))))"
    if ne: "text \<noteq> []"
  proof -
    define hits where "hits = filter (\<lambda>t. sublist (lower t) tr) (critical_triggers sm)"
    have res: "check_for_crisis sm (Str text) now =
        (if hits \<noteq> []
         then \<lparr> level = CRITICAL, triggered_words = hits, message = crisis_response_message sm,
                crisis_timestamp = now, requires_override = True \<rparr>
         else no_crisis now)"
      using ne by (simp add: check_for_crisis.simps hits_def tr_def Let_def get_crisis_message_def)
    have hits_iff: "hits \<noteq> [] \<longleftrightarrow> (\<exists>t\<in>set (critical_triggers sm). sublist (lower t) tr)"
      by (simp add: hits_def filter_empty_conv)
    have lv: "level (check_for_crisis sm (Str text) now) = CRITICAL
            \<longleftrightarrow> (\<exists>t\<in>set (critical_triggers sm). sublist (lower t) tr)"
      using hits_iff by (simp add: res no_crisis_def)
    have c1: "check_for_crisis sm (Str text) now =
               \<lparr> level = CRITICAL,
                 triggered_words = filter (\<lambda>t. sublist (lower t) tr) (critical_triggers sm),
                 message = crisis_response_message sm,
                 crisis_timestamp = now, requires_override = True \<rparr>"
      if "level (check_for_crisis sm (Str text) now) = CRITICAL"
      using that by (cases "hits = []") (simp_all add: res no_crisis_def hits_def)
    have c2: "check_for_crisis sm (Str text) now = no_crisis now"
      if "level (check_for_crisis sm (Str text) now) \<noteq> CRITICAL"
      using that by (cases "hits = []") (simp_all add: res)
    have c3: "level (check_for_crisis sm (Str text) now) = CRITICAL
                \<longleftrightarrow> (\<exists>t\<in>set (critical_triggers sm). sublist (lower t) (lower text))"
      if tg: "\<forall>t\<in>set (critical_triggers sm).
               t \<noteq> [] \<and> \<not> is_space (hd (lower t)) \<and> \<not> is_space (last (lower t))"
    proof -
      have "sublist (lower t) tr \<longleftrightarrow> sublist (lower t) (lower text)"
        if "t \<in> set (critical_triggers sm)" for t
      proof -
        have "lower t \<noteq> []" using tg that by (simp add: lower_def)
        then show ?thesis unfolding tr_def using tg that sublist_strip_iff by blast
      qed
      then show ?thesis using lv by blast
    qed
    show ?thesis using lv c1 c2 c3 by blast
  qed
  have "trimmed_to (lower text) tr \<and> (\<forall>y. trimmed_to (lower text) y \<longrightarrow> y = tr)
        \<and> (text \<noteq> [] \<longrightarrow>
             (level (check_for_crisis sm (Str text) now) = CRITICAL
                \<longleftrightarrow> (\<exists>t\<in>set (critical_triggers sm). sublist (lower t) tr))
           \<and> (level (check_for_crisis sm (Str text) now) = CRITICAL \<longrightarrow>
                check_for_crisis sm (Str text) now =
                  \<lparr> level = CRITICAL,
                    triggered_words = filter (\<lambda>t. sublist (lower t) tr) (critical_triggers sm),
                    message = crisis_response_message sm,
                    crisis_timestamp = now, requires_override = True \<rparr>)
           \<and> (level (check_for_crisis sm (Str text) now) \<noteq> CRITICAL \<longrightarrow>
                check_for_crisis sm (Str text) now = no_crisis now)
           \<and> ((\<forall>t\<in>set (critical_triggers sm).
                  t \<noteq> [] \<and> \<not> is_space (hd (lower t)) \<and> \<not> is_space (last (lower t))) \<longrightarrow>
                (level (check_for_crisis sm (Str text) now) = CRITICAL
                   \<longleftrightarrow> (\<exists>t\<in>set (critical_triggers sm). sublist (lower t) (lower text)))))"
    using t1 t2 main by blast
  then have ex: "\<exists>trimmed. trimmed_to (lower text) trimmed \<and> (\<forall>y. trimmed_to (lower text) y \<longrightarrow> y = trimmed)
        \<and> (text \<noteq> [] \<longrightarrow>
             (level (check_for_crisis sm (Str text) now) = CRITICAL
                \<longleftrightarrow> (\<exists>t\<in>set (critical_triggers sm). sublist (lower t) trimmed))
           \<and> (level (check_for_crisis sm (Str text) now) = CRITICAL \<longrightarrow>
                check_for_crisis sm (Str text) now =
                  \<lparr> level = CRITICAL,
                    triggered_words = filter (\<lambda>t. sublist (lower t) trimmed) (critical_triggers sm),
                    message = crisis_response_message sm,
                    crisis_timestamp = now, requires_override = True \<rparr>)
           \<and> (level (check_for_crisis sm (Str text) now) \<noteq> CRITICAL \<longrightarrow>
                check_for_crisis sm (Str text) now = no_crisis now)
           \<and> ((\<forall>t\<in>set (critical_triggers sm).
                  t \<noteq> [] \<and> \<not> is_space (hd (lower t)) \<and> \<not> is_space (last (lower t))) \<longrightarrow>
                (level (check_for_crisis sm (Str text) now) = CRITICAL
                   \<longleftrightarrow> (\<exists>t\<in>set (critical_triggers sm). sublist (lower t) (lower text)))))"
    by (rule exI[of _ tr])
  show ?thesis using basic len low sp ex by (intro conjI)
qed

text \<open>
  Claim C3 as stated fails for a trigger that ends with white space: the trigger
  \<open>"end it "\<close> occurs in the text \<open>"I will end it "\<close>, but the text is trimmed before
  the search and the trigger is not, so the level is \<open>NONE\<close>.
\<close>

theorem trigger_with_trailing_space_counterexample:
  "''I will end it '' \<noteq> []
   \<and> critical_triggers spaced_monitor = [''end it '']
   \<and> sublist (lower ''end it '') (lower ''I will end it '')
   \<and> level (check_for_crisis spaced_monitor (Str ''I will end it '') 0) = NONE
   \<and> requires_override (check_for_crisis spaced_monitor (Str ''I will end it '') 0) = False"
  by code_simp

theorem check_for_crisis_trimmed_match_witness:
  "''  I want to Kill Myself  '' \<noteq> []
   \<and> list_all (\<lambda>t. t \<noteq> [] \<and> \<not> is_space (hd (lower t)) \<and> \<not> is_space (last (lower t)))
         (critical_triggers demo_monitor)
   \<and> trimmed_to (lower ''  I want to Kill Myself  '') ''i want to kill myself''
   \<and> check_for_crisis demo_monitor (Str ''  I want to Kill Myself  '') 7 =
        \<lparr> level = CRITICAL, triggered_words = [''kill myself''],
          message = ''Please call your local emergency number.'',
          crisis_timestamp = 7, requires_override = True \<rparr>
   \<and> check_for_crisis demo_monitor (Str '' I feel fine '') 7 = no_crisis 7"
proof -
  have ne: "''  I want to Kill Myself  '' \<noteq> []" "'' I feel fine '' \<noteq> []" by simp_all
  have tr: "list_all (\<lambda>t. t \<noteq> [] \<and> \<not> is_space (hd (lower t)) \<and> \<not> is_space (last (lower t)))
         (critical_triggers demo_monitor)"
    by (simp add: demo_monitor_def string_eval)
  have low: "lower ''  I want to Kill Myself  '' = ''  '' @ ''i want to kill myself'' @ ''  ''"
    by (simp add: lower_def lower_char_def)
  have tt: "trimmed_to (lower ''  I want to Kill Myself  '') ''i want to kill myself''"
    unfolding trimmed_to_def low
    by (intro exI[of _ "''  ''"] conjI refl) (simp_all add: is_space_def)
  have hit: "filter (\<lambda>t. sublist (lower t) ''i want to kill myself'') (critical_triggers demo_monitor)
               = [''kill myself'']"
    by (simp add: demo_monitor_def string_eval)
  have miss: "\<not> (\<exists>t\<in>set (critical_triggers demo_monitor). sublist (lower t) (lower '' I feel fine ''))"
    by (simp add: demo_monitor_def string_eval)
  have m: "crisis_response_message demo_monitor = ''Please call your local emergency number.''"
    by (simp add: demo_monitor_def)
  have trb: "\<forall>t\<in>set (critical_triggers demo_monitor).
               t \<noteq> [] \<and> \<not> is_space (hd (lower t)) \<and> \<not> is_space (last (lower t))"
    using tr by (simp add: list_all_iff)
  from check_for_crisis_trimmed_match[of demo_monitor 7 "''  I want to Kill Myself  ''"]
  obtain trimmed where u: "\<forall>y. trimmed_to (lower ''  I want to Kill Myself  '') y \<longrightarrow> y = trimmed"
    and lv: "level (check_for_crisis demo_monitor (Str ''  I want to Kill Myself  '') 7) = CRITICAL
                \<longleftrightarrow> (\<exists>t\<in>set (critical_triggers demo_monitor). sublist (lower t) trimmed)"
    and eq: "level (check_for_crisis demo_monitor (Str ''  I want to Kill Myself  '') 7) = CRITICAL \<longrightarrow>
                check_for_crisis demo_monitor (Str ''  I want to Kill Myself  '') 7 =
                  \<lparr> level = CRITICAL,
                    triggered_words = filter (\<lambda>t. sublist (lower t) trimmed) (critical_triggers demo_monitor),
                    message = crisis_response_message demo_monitor,
                    crisis_timestamp = 7, requires_override = True \<rparr>"
    using ne(1) by blast
  have t: "trimmed = ''i want to kill myself''" using u tt by blast
  have "\<exists>t\<in>set (critical_triggers demo_monitor). sublist (lower t) ''i want to kill myself''"
    by (simp add: demo_monitor_def string_eval)
  then have r1: "check_for_crisis demo_monitor (Str ''  I want to Kill Myself  '') 7 =
        \<lparr> level = CRITICAL, triggered_words = [''kill myself''],
          message = ''Please call your local emergency number.'',
          crisis_timestamp = 7, requires_override = True \<rparr>"
    using lv eq unfolding t hit m by blast
  from check_for_crisis_trimmed_match[of demo_monitor 7 "'' I feel fine ''"]
  have r2: "check_for_crisis demo_monitor (Str '' I feel fine '') 7 = no_crisis 7"
    using ne(2) trb miss by blast
  show ?thesis using ne(1) tr tt r1 r2 by blast
qed

section \<open>Properties of the conversation flow\<close>

lemma put_session_simps [simp]:
  "map_of (sessions (put_session sid s m)) sid = Some s"
  "timeout_minutes (put_session sid s m) = timeout_minutes m"
  "max_sessions (put_session sid s m) = max_sessions m"
  "put_session sid s2 (put_session sid s1 m) = put_session sid s2 m"
  by (simp_all add: put_session_def update_conv')

lemma put_session_other: "k \<noteq> sid \<Longrightarrow> map_of (sessions (put_session sid s m)) k = map_of (sessions m) k"
  by (simp add: put_session_def update_conv')

lemma get_session_SomeD:
  assumes "get_session sid now m = (Some s, m1)"
  shows "map_of (sessions m1) sid = Some s" "last_activity s = now"
        "timeout_minutes m1 = timeout_minutes m" "max_sessions m1 = max_sessions m"
  using assms
  by (auto simp: get_session_def update_conv' update_activity_def split: option.splits if_splits)

lemma get_session_NoneD:
  assumes "get_session sid now m = (None, m1)"
  shows "map_of (sessions m1) sid = None"
  using assms
  by (auto simp: get_session_def delete_conv' split: option.splits if_splits)

lemma get_session_again:
  assumes "map_of (sessions m) sid = Some s" "last_activity s = now" "0 \<le> timeout_minutes m"
  shows "get_session sid now m = (Some s, m)"
proof -
  have "0 \<le> timeout_minutes m * minute" using assms(3) by (simp add: minute_def)
  then have ne: "\<not> is_expired s (timeout_minutes m) now" using assms(2) by (simp add: is_expired_def)
  have ua: "update_activity now s = s" using assms(2) by (simp add: update_activity_def)
  have "AList.update sid s (sessions m) = sessions m" using assms(1) by (rule update_triv)
  then show ?thesis using assms(1) ne ua by (simp add: get_session_def)
qed

lemma update_session_again:
  assumes "map_of (sessions m) sid = Some s" "last_activity s = now" "0 \<le> timeout_minutes m"
      and "set_fields us s = (None, s')" "last_activity s' = now"
  shows "update_session sid us now m = (Inr True, put_session sid s' m)"
proof -
  have "update_activity now s' = s'" using assms(5) by (simp add: update_activity_def)
  then show ?thesis
    using get_session_again[OF assms(1-3)] assms(4)
    by (simp add: update_session_def put_session_def)
qed

lemma add_conversation_again:
  assumes "map_of (sessions m) sid = Some s" "last_activity s = now" "0 \<le> timeout_minutes m"
  shows "add_conversation sid um ar ph now m =
           (True, put_session sid (add_conversation_entry um ar ph now s) m)"
  using get_session_again[OF assms] by (simp add: add_conversation_def put_session_def)

lemma add_response_again:
  assumes "map_of (sessions m) sid = Some s" "last_activity s = now" "0 \<le> timeout_minutes m"
  shows "add_response sid q t sc now m =
           (True, put_session sid (session_add_response q t sc now s) m)"
  using get_session_again[OF assms] by (simp add: add_response_def put_session_def)

lemma entry_last_activity [simp]:
  "last_activity (add_conversation_entry um ar ph now s) = now"
  "last_activity (session_add_response q t sc now s) = now"
  by (simp_all add: add_conversation_entry_def session_add_response_def update_activity_def)

lemma check_for_crisis_override:
  "requires_override (check_for_crisis sm x now) \<longleftrightarrow> level (check_for_crisis sm x now) = CRITICAL"
  by (cases x) (auto simp: check_for_crisis.simps no_crisis_def Let_def)

lemma check_for_crisis_message:
  "level (check_for_crisis sm x now) = CRITICAL \<Longrightarrow>
     message (check_for_crisis sm x now) = crisis_response_message sm"
  by (cases x) (auto simp: check_for_crisis.simps no_crisis_def Let_def get_crisis_message_def split: if_splits)

lemma phase_of_value [simp]: "ConversationPhase_of (phase_value p) = Inr p"
  by (cases p) (simp_all add: ConversationPhase_of_def)

lemma tool_of_value [simp]: "ScreeningTool_of (tool_value t) = Inr t"
  by (cases t) (simp_all add: ScreeningTool_of_def)

declare phase_value.simps [simp del] tool_value.simps [simp del]

lemma handle_crisis_response_live:
  assumes "map_of (sessions m) sid = Some s" "last_activity s = now" "0 \<le> timeout_minutes m"
  shows "handle_crisis_response sid um cr now m =
           ((reply (message cr) CRISIS_RESPONSE True)\<lparr>next_action := Some ''stop''\<rparr>,
            put_session sid
              (s\<lparr>crisis_detected := True, current_phase := CRISIS_RESPONSE,
                 conversation_history := conversation_history s @
                   [\<lparr>entry_user_message = um, entry_ai_response = message cr,
                     entry_phase = phase_value CRISIS_RESPONSE, entry_timestamp = now\<rparr>]\<rparr>) m)"
proof -
  define s2 where "s2 = s\<lparr>crisis_detected := True, current_phase := CRISIS_RESPONSE\<rparr>"
  have sf: "set_fields [crisis_detected_upd True, current_phase_str (phase_value CRISIS_RESPONSE)] s = (None, s2)"
    by (simp add: s2_def)
  have la2: "last_activity s2 = now" using assms(2) by (simp add: s2_def)
  have u: "update_session sid [crisis_detected_upd True, current_phase_str (phase_value CRISIS_RESPONSE)] now m
             = (Inr True, put_session sid s2 m)"
    using update_session_again[OF assms sf la2] .
  have a: "add_conversation sid um (message cr) (phase_value CRISIS_RESPONSE) now (put_session sid s2 m)
             = (True, put_session sid (add_conversation_entry um (message cr) (phase_value CRISIS_RESPONSE) now s2) m)"
    using add_conversation_again[of "put_session sid s2 m" sid s2 now] la2 assms(3) by simp
  have e: "add_conversation_entry um (message cr) (phase_value CRISIS_RESPONSE) now s2 =
       s\<lparr>crisis_detected := True, current_phase := CRISIS_RESPONSE,
                 conversation_history := conversation_history s @
                   [\<lparr>entry_user_message = um, entry_ai_response = message cr,
                     entry_phase = phase_value CRISIS_RESPONSE, entry_timestamp = now\<rparr>]\<rparr>"
    using assms(2) by (simp add: add_conversation_entry_def update_activity_def s2_def)
  show ?thesis
    unfolding handle_crisis_response_def u by (simp add: a e Let_def)
qed

text \<open>
  Claim C1. When \<open>process_user_message\<close> finds the session (the lookup returns it) and
  the detector classifies the message as \<open>CRITICAL\<close>, then, whatever the session's
  phase and the bot configuration, the reply is the crisis message with phase
  \<open>CRISIS_RESPONSE\<close>, \<open>crisis_detected\<close> and the action \<open>stop\<close>, and the stored session is
  the one the lookup returned with \<open>crisis_detected\<close> set, phase \<open>CRISIS_RESPONSE\<close> and
  the exchange appended to its history: nothing else has changed, so no phase handler ran.
  The timeout is not negative, so that the session just refreshed is still live for the
  store calls of the same pass.
\<close>

theorem crisis_override_precedes_phase_logic:
  assumes "get_session sid now m = (Some session, m1)"
      and "level (check_for_crisis sm (Str user_message) now) = CRITICAL"
      and "0 \<le> timeout_minutes m"
  shows "process_user_message cfg sm sid user_message rnd now m =
           ((reply (crisis_response_message sm) CRISIS_RESPONSE True)\<lparr>next_action := Some ''stop''\<rparr>,
            m1\<lparr>sessions := AList.update sid
              (session\<lparr>crisis_detected := True, current_phase := CRISIS_RESPONSE,
                 conversation_history := conversation_history session @
                   [\<lparr>entry_user_message = user_message,
                     entry_ai_response = crisis_response_message sm,
                     entry_phase = ''CRISIS_RESPONSE'', entry_timestamp = now\<rparr>]\<rparr>)
              (sessions m1)\<rparr>)"
proof -
  note g = get_session_SomeD[OF assms(1)]
  have tm: "0 \<le> timeout_minutes m1" using g(3) assms(3) by simp
  have ov: "requires_override (check_for_crisis sm (Str user_message) now)"
    using assms(2) by (simp add: check_for_crisis_override)
  have msg: "message (check_for_crisis sm (Str user_message) now) = crisis_response_message sm"
    using assms(2) by (rule check_for_crisis_message)
  show ?thesis
    unfolding process_user_message_def assms(1)
    using ov handle_crisis_response_live[OF g(1) g(2) tm, of user_message "check_for_crisis sm (Str user_message) now"]
    by (simp add: msg put_session_def phase_value.simps)
qed

lemma screening_store_get:
  "get_session ''s1'' minute screening_store =
     (Some (screening_session\<lparr>last_activity := minute\<rparr>),
      screening_store\<lparr>sessions := [(''s1'', screening_session\<lparr>last_activity := minute\<rparr>)]\<rparr>)"
  by (simp add: get_session_def screening_store_def screening_session_def new_SessionData_def
        is_expired_def update_activity_def minute_def)

theorem crisis_override_precedes_phase_logic_witness:
  "get_session ''s1'' minute screening_store =
     (Some (screening_session\<lparr>last_activity := minute\<rparr>),
      screening_store\<lparr>sessions := [(''s1'', screening_session\<lparr>last_activity := minute\<rparr>)]\<rparr>)
   \<and> level (check_for_crisis demo_monitor (Str ''I want to kill myself'') minute) = CRITICAL
   \<and> 0 \<le> timeout_minutes screening_store
   \<and> current_phase screening_session = SCREENING
   \<and> process_user_message demo_config demo_monitor ''s1'' ''I want to kill myself'' 0 minute screening_store =
        ((reply ''Please call your local emergency number.'' CRISIS_RESPONSE True)\<lparr>next_action := Some ''stop''\<rparr>,
         screening_store\<lparr>sessions :=
           [(''s1'', screening_session\<lparr>last_activity := minute, crisis_detected := True,
                current_phase := CRISIS_RESPONSE,
                conversation_history := conversation_history screening_session @
                   [\<lparr>entry_user_message = ''I want to kill myself'',
                     entry_ai_response = ''Please call your local emergency number.'',
                     entry_phase = ''CRISIS_RESPONSE'', entry_timestamp = minute\<rparr>]\<rparr>)]\<rparr>)"
proof -
  have c: "level (check_for_crisis demo_monitor (Str ''I want to kill myself'') minute) = CRITICAL"
    by (simp add: check_for_crisis.simps demo_monitor_def string_eval)
  have t: "0 \<le> timeout_minutes screening_store" by (simp add: screening_store_def)
  have p: "current_phase screening_session = SCREENING" by (simp add: screening_session_def)
  have msg: "crisis_response_message demo_monitor = ''Please call your local emergency number.''"
    by (simp add: demo_monitor_def)
  from crisis_override_precedes_phase_logic[OF screening_store_get c t, of demo_config 0]
  show ?thesis using screening_store_get c t p by (simp add: msg)
qed

lemma every_session_put:
  "every_session Q m \<Longrightarrow> Q sid s \<Longrightarrow> every_session Q (m\<lparr>sessions := AList.update sid s (sessions m)\<rparr>)"
  by (simp add: every_session_def update_conv')

lemma every_session_delete:
  "every_session Q m \<Longrightarrow> every_session Q (m\<lparr>sessions := AList.delete sid (sessions m)\<rparr>)"
  by (simp add: every_session_def delete_conv')

lemma every_sessionD: "every_session Q m \<Longrightarrow> map_of (sessions m) k = Some s \<Longrightarrow> Q k s"
  by (simp add: every_session_def)

lemma get_session_every:
  assumes "every_session Q m" and "\<And>s. Q sid s \<Longrightarrow> Q sid (update_activity now s)"
  shows "every_session Q (snd (get_session sid now m))"
    and "fst (get_session sid now m) = Some s \<Longrightarrow> Q sid s"
proof -
  show "every_session Q (snd (get_session sid now m))"
  proof (cases "map_of (sessions m) sid")
    case None
    then show ?thesis using assms(1) by (simp add: get_session_def)
  next
    case (Some s0)
    then have "Q sid (update_activity now s0)" using assms every_sessionD by blast
    then show ?thesis using Some assms(1)
      by (simp add: get_session_def every_session_put every_session_delete)
  qed
  show "Q sid s" if "fst (get_session sid now m) = Some s"
    using that assms every_sessionD[OF assms(1)]
    by (auto simp: get_session_def split: option.splits if_splits)
qed

lemma set_fields_no_error:
  "list_all (\<lambda>u. \<forall>s. \<exists>s'. set_field u s = Inr s') us \<Longrightarrow> fst (set_fields us s) = None"
proof (induction us arbitrary: s)
  case Nil
  then show ?case by simp
next
  case (Cons u us)
  then obtain s' where "set_field u s = Inr s'" by auto
  then show ?case using Cons by simp
qed

lemma set_fields_pres:
  assumes step: "\<And>u a b. u \<in> set us \<Longrightarrow> Q a \<Longrightarrow> set_field u a = Inr b \<Longrightarrow> Q b"
  shows "Q s \<Longrightarrow> Q (snd (set_fields us s))"
  using step
proof (induction us arbitrary: s)
  case Nil
  then show ?case by simp
next
  case (Cons u us)
  note st = Cons.prems(2)
  show ?case
  proof (cases "set_field u s")
    case (Inl e)
    then show ?thesis using Cons.prems(1) by simp
  next
    case (Inr s')
    have qs': "Q s'" by (rule st[OF _ Cons.prems(1) Inr]) simp
    have "Q (snd (set_fields us s'))"
    proof (rule Cons.IH[OF qs'])
      fix v a b
      assume v: "v \<in> set us" and a: "Q a" and b: "set_field v a = Inr b"
      have "v \<in> set (u # us)" using v by simp
      then show "Q b" using a b by (rule st)
    qed
    then show ?thesis using Inr by simp
  qed
qed

lemma update_session_every:
  assumes "every_session Q m" and "\<And>s t. Q sid s \<Longrightarrow> Q sid (update_activity t s)"
      and "\<And>u s s'. u \<in> set us \<Longrightarrow> Q sid s \<Longrightarrow> set_field u s = Inr s' \<Longrightarrow> Q sid s'"
  shows "every_session Q (snd (update_session sid us now m))"
proof -
  obtain r m1 where g: "get_session sid now m = (r, m1)" by (cases "get_session sid now m")
  have e1: "every_session Q m1" using get_session_every(1)[OF assms(1), of sid now] assms(2) g by simp
  show ?thesis
  proof (cases r)
    case None
    then show ?thesis using g e1 by (simp add: update_session_def)
  next
    case (Some s)
    then have "Q sid s" using get_session_every(2)[OF assms(1), of sid now s] assms(2) g by simp
    then have q: "Q sid (snd (set_fields us s))"
      by (rule set_fields_pres[of us "Q sid" s, rotated]) (rule assms(3))
    then have q2: "Q sid (update_activity now (snd (set_fields us s)))" using assms(2) by blast
    show ?thesis using g Some e1 q q2
      by (auto simp: update_session_def every_session_put split: prod.splits option.splits)
  qed
qed

lemma add_conversation_every:
  assumes "every_session Q m" and "\<And>s t. Q sid s \<Longrightarrow> Q sid (update_activity t s)"
      and "\<And>s. Q sid s \<Longrightarrow> Q sid (add_conversation_entry um ar ph now s)"
  shows "every_session Q (snd (add_conversation sid um ar ph now m))"
proof -
  obtain r m1 where g: "get_session sid now m = (r, m1)" by (cases "get_session sid now m")
  have e1: "every_session Q m1" using get_session_every(1)[OF assms(1), of sid now] assms(2) g by simp
  show ?thesis
  proof (cases r)
    case None
    then show ?thesis using g e1 by (simp add: add_conversation_def)
  next
    case (Some s)
    then have "Q sid s" using get_session_every(2)[OF assms(1), of sid now s] assms(2) g by simp
    then show ?thesis using g Some e1 assms(3) by (simp add: add_conversation_def every_session_put)
  qed
qed

lemma add_response_every:
  assumes "every_session Q m" and "\<And>s t. Q sid s \<Longrightarrow> Q sid (update_activity t s)"
      and "\<And>s. Q sid s \<Longrightarrow> Q sid (session_add_response q tx sc now s)"
  shows "every_session Q (snd (add_response sid q tx sc now m))"
proof -
  obtain r m1 where g: "get_session sid now m = (r, m1)" by (cases "get_session sid now m")
  have e1: "every_session Q m1" using get_session_every(1)[OF assms(1), of sid now] assms(2) g by simp
  show ?thesis
  proof (cases r)
    case None
    then show ?thesis using g e1 by (simp add: add_response_def)
  next
    case (Some s)
    then have "Q sid s" using get_session_every(2)[OF assms(1), of sid now s] assms(2) g by simp
    then show ?thesis using g Some e1 assms(3) by (simp add: add_response_def every_session_put)
  qed
qed

lemma update_session_no_error:
  "list_all (\<lambda>u. \<forall>s. \<exists>s'. set_field u s = Inr s') us \<Longrightarrow>
     \<exists>b. fst (update_session sid us now m) = Inr b"
proof -
  assume a: "list_all (\<lambda>u. \<forall>s. \<exists>s'. set_field u s = Inr s') us"
  obtain r m1 where g: "get_session sid now m = (r, m1)" by (cases "get_session sid now m")
  show ?thesis
  proof (cases r)
    case None
    then have "fst (update_session sid us now m) = Inr False" using g by (simp add: update_session_def)
    then show ?thesis by blast
  next
    case (Some s)
    have "fst (set_fields us s) = None" using a by (rule set_fields_no_error)
    then show ?thesis using g Some by (cases "set_fields us s") (auto simp: update_session_def)
  qed
qed



lemma handle_phq9_q9_crisis_live:
  assumes "map_of (sessions m) sid = Some s" "last_activity s = now" "0 \<le> timeout_minutes m"
  shows "handle_phq9_q9_crisis sm sid um s score now m =
           ((reply (crisis_response_message sm) CRISIS_RESPONSE True)\<lparr>crisis_trigger := Some ''PHQ9_Q9''\<rparr>,
            put_session sid
              (s\<lparr>crisis_detected := True, current_phase := CRISIS_RESPONSE,
                 responses := responses s @
                   [\<lparr>question_id = ''phq9_9'', user_text = um, mapped_score = score, timestamp = now\<rparr>],
                 conversation_history := conversation_history s @
                   [\<lparr>entry_user_message = um, entry_ai_response = crisis_response_message sm,
                     entry_phase = phase_value CRISIS_RESPONSE, entry_timestamp = now\<rparr>]\<rparr>) m)"
proof -
  define s2 where "s2 = s\<lparr>crisis_detected := True, current_phase := CRISIS_RESPONSE\<rparr>"
  define s3 where "s3 = session_add_response ''phq9_9'' um score now s2"
  have sf: "set_fields [crisis_detected_upd True, current_phase_str (phase_value CRISIS_RESPONSE)] s = (None, s2)"
    by (simp add: s2_def)
  have la2: "last_activity s2 = now" using assms(2) by (simp add: s2_def)
  have u: "update_session sid [crisis_detected_upd True, current_phase_str (phase_value CRISIS_RESPONSE)] now m
             = (Inr True, put_session sid s2 m)"
    using update_session_again[OF assms sf la2] .
  have r: "add_response sid ''phq9_9'' um score now (put_session sid s2 m) = (True, put_session sid s3 m)"
    using add_response_again[of "put_session sid s2 m" sid s2 now] la2 assms(3) by (simp add: s3_def)
  have la3: "last_activity s3 = now" by (simp add: s3_def)
  have a: "add_conversation sid um (crisis_response_message sm) (phase_value CRISIS_RESPONSE) now (put_session sid s3 m)
             = (True, put_session sid (add_conversation_entry um (crisis_response_message sm) (phase_value CRISIS_RESPONSE) now s3) m)"
    using add_conversation_again[of "put_session sid s3 m" sid s3 now] la3 assms(3) by simp
  have e: "add_conversation_entry um (crisis_response_message sm) (phase_value CRISIS_RESPONSE) now s3 =
       s\<lparr>crisis_detected := True, current_phase := CRISIS_RESPONSE,
                 responses := responses s @
                   [\<lparr>question_id = ''phq9_9'', user_text = um, mapped_score = score, timestamp = now\<rparr>],
                 conversation_history := conversation_history s @
                   [\<lparr>entry_user_message = um, entry_ai_response = crisis_response_message sm,
                     entry_phase = phase_value CRISIS_RESPONSE, entry_timestamp = now\<rparr>]\<rparr>"
    using assms(2)
    by (simp add: add_conversation_entry_def session_add_response_def update_activity_def s2_def s3_def)
  show ?thesis
    unfolding handle_phq9_q9_crisis_def u
    by (simp add: r a e Let_def get_crisis_message_def)
qed

text \<open>
  Claim C6, as the code has it. The check of the crisis question index is guarded by
  \<open>tool_name == "PHQ9"\<close>. For a session found in \<open>SCREENING\<close> on PHQ9, not yet in
  crisis, whose message holds no crisis trigger: if the configuration gives PHQ9 a crisis
  question index, the question just answered is at that index (as many responses are
  recorded) and the reply maps to a score above 0, then the response is recorded (under
  the question id \<open>phq9_9\<close>), \<open>crisis_detected\<close> is set, the phase becomes
  \<open>CRISIS_RESPONSE\<close>, the crisis message is returned and appended to the history, and the
  questionnaire neither advances nor reaches \<open>RESULTS\<close>.
\<close>

theorem phq9_crisis_question_routes_to_crisis:
  assumes "get_session sid now m = (Some session, m1)"
      and "0 \<le> timeout_minutes m"
      and "level (check_for_crisis sm (Str user_message) now) \<noteq> CRITICAL"
      and "\<not> crisis_detected session"
      and "current_phase session = SCREENING"
      and "selected_tool session = Some PHQ9"
      and "crisis_index_of cfg ''PHQ9'' = Some (int (length (responses session)))"
      and "map_response_to_score cfg user_message ''PHQ9'' = Inr score"
      and "score > 0"
  shows "process_user_message cfg sm sid user_message rnd now m =
           ((reply (crisis_response_message sm) CRISIS_RESPONSE True)\<lparr>crisis_trigger := Some ''PHQ9_Q9''\<rparr>,
            m1\<lparr>sessions := AList.update sid
              (session\<lparr>crisis_detected := True, current_phase := CRISIS_RESPONSE,
                 responses := responses session @
                   [\<lparr>question_id = ''phq9_9'', user_text = user_message,
                     mapped_score = score, timestamp = now\<rparr>],
                 conversation_history := conversation_history session @
                   [\<lparr>entry_user_message = user_message,
                     entry_ai_response = crisis_response_message sm,
                     entry_phase = ''CRISIS_RESPONSE'', entry_timestamp = now\<rparr>]\<rparr>)
              (sessions m1)\<rparr>)"
proof -
  note g = get_session_SomeD[OF assms(1)]
  have tm: "0 \<le> timeout_minutes m1" using g(3) assms(2) by simp
  have ov: "\<not> requires_override (check_for_crisis sm (Str user_message) now)"
    using assms(3) by (simp add: check_for_crisis_override)
  have sc: "handle_screening_phase cfg sm sid user_message session rnd now m1 =
              handle_phq9_q9_crisis sm sid user_message session score now m1"
    using assms(6-9)
    by (simp add: handle_screening_phase_def tool_name_of_def tool_value.simps Let_def)
  show ?thesis
    unfolding process_user_message_def assms(1)
    using ov assms(4,5) handle_phq9_q9_crisis_live[OF g(1) g(2) tm, of sm user_message score]
    by (simp add: sc put_session_def phase_value.simps)
qed

text \<open>
  Claim C6 as stated fails for a tool other than PHQ9: with a crisis question index of 0
  configured for GAD7, a first GAD7 answer that maps to score 3 is recorded and the
  questionnaire goes on to question 2, in phase \<open>SCREENING\<close>, with no crisis.
\<close>

theorem crisis_index_ignored_outside_phq9_counterexample:
  "current_phase gad7_session = SCREENING
   \<and> selected_tool gad7_session = Some GAD7
   \<and> crisis_index_of demo_config ''GAD7'' = Some (int (length (responses gad7_session)))
   \<and> map_response_to_score demo_config ''nearly every day'' ''GAD7'' = Inr 3
   \<and> reply_current_phase
        (fst (process_user_message demo_config demo_monitor ''s1'' ''nearly every day'' 0 minute gad7_store))
        = Some ''SCREENING''
   \<and> reply_crisis_detected
        (fst (process_user_message demo_config demo_monitor ''s1'' ''nearly every day'' 0 minute gad7_store))
        = Some False
   \<and> question_number
        (fst (process_user_message demo_config demo_monitor ''s1'' ''nearly every day'' 0 minute gad7_store))
        = Some 2
   \<and> map_option crisis_detected
        (map_of (sessions (snd (process_user_message demo_config demo_monitor ''s1'' ''nearly every day'' 0 minute gad7_store))) ''s1'')
        = Some False
   \<and> map_option current_phase
        (map_of (sessions (snd (process_user_message demo_config demo_monitor ''s1'' ''nearly every day'' 0 minute gad7_store))) ''s1'')
        = Some SCREENING"
  by code_simp

lemma phq9_q2_store_get:
  "get_session ''s1'' minute phq9_q2_store =
     (Some (phq9_q2_session\<lparr>last_activity := minute\<rparr>),
      phq9_q2_store\<lparr>sessions := [(''s1'', phq9_q2_session\<lparr>last_activity := minute\<rparr>)]\<rparr>)"
  by (simp add: get_session_def phq9_q2_store_def phq9_q2_session_def screening_session_def
        new_SessionData_def is_expired_def update_activity_def minute_def)

theorem phq9_crisis_question_routes_to_crisis_witness:
  "get_session ''s1'' minute phq9_q2_store =
     (Some (phq9_q2_session\<lparr>last_activity := minute\<rparr>),
      phq9_q2_store\<lparr>sessions := [(''s1'', phq9_q2_session\<lparr>last_activity := minute\<rparr>)]\<rparr>)
   \<and> 0 \<le> timeout_minutes phq9_q2_store
   \<and> level (check_for_crisis demo_monitor (Str ''more than half the days'') minute) = NONE
   \<and> crisis_index_of demo_config ''PHQ9'' = Some 1
   \<and> map_response_to_score demo_config ''more than half the days'' ''PHQ9'' = Inr 2
   \<and> process_user_message demo_config demo_monitor ''s1'' ''more than half the days'' 0 minute phq9_q2_store =
        ((reply ''Please call your local emergency number.'' CRISIS_RESPONSE True)\<lparr>crisis_trigger := Some ''PHQ9_Q9''\<rparr>,
         phq9_q2_store\<lparr>sessions :=
           [(''s1'', phq9_q2_session\<lparr>last_activity := minute, crisis_detected := True,
                current_phase := CRISIS_RESPONSE,
                responses := responses phq9_q2_session @
                   [\<lparr>question_id = ''phq9_9'', user_text = ''more than half the days'',
                     mapped_score = 2, timestamp = minute\<rparr>],
                conversation_history := conversation_history phq9_q2_session @
                   [\<lparr>entry_user_message = ''more than half the days'',
                     entry_ai_response = ''Please call your local emergency number.'',
                     entry_phase = ''CRISIS_RESPONSE'', entry_timestamp = minute\<rparr>]\<rparr>)]\<rparr>)"
proof -
  have t: "0 \<le> timeout_minutes phq9_q2_store" by (simp add: phq9_q2_store_def)
  have lv: "level (check_for_crisis demo_monitor (Str ''more than half the days'') minute) = NONE"
    by code_simp
  have c: "level (check_for_crisis demo_monitor (Str ''more than half the days'') minute) \<noteq> CRITICAL"
    using lv by simp
  have nd: "\<not> crisis_detected (phq9_q2_session\<lparr>last_activity := minute\<rparr>)"
    and ph: "current_phase (phq9_q2_session\<lparr>last_activity := minute\<rparr>) = SCREENING"
    and tl: "selected_tool (phq9_q2_session\<lparr>last_activity := minute\<rparr>) = Some PHQ9"
    by (simp_all add: phq9_q2_session_def screening_session_def new_SessionData_def)
  have ci0: "crisis_index_of demo_config ''PHQ9'' = Some 1" by code_simp
  have ln: "length (responses (phq9_q2_session\<lparr>last_activity := minute\<rparr>)) = 1"
    by (simp add: phq9_q2_session_def)
  have ci: "crisis_index_of demo_config ''PHQ9''
              = Some (int (length (responses (phq9_q2_session\<lparr>last_activity := minute\<rparr>))))"
    using ci0 ln by simp
  have sc: "map_response_to_score demo_config ''more than half the days'' ''PHQ9'' = Inr 2"
    by code_simp
  have pos: "(2::int) > 0" by simp
  have msg: "crisis_response_message demo_monitor = ''Please call your local emergency number.''"
    by (simp add: demo_monitor_def)
  from phq9_crisis_question_routes_to_crisis[OF phq9_q2_store_get t c nd ph tl ci sc pos, of 0]
  show ?thesis using phq9_q2_store_get t lv ci0 sc by (simp add: msg)
qed

lemma crisis_frozen_refl: "crisis_detected s \<Longrightarrow> crisis_frozen sm s s"
  by (simp add: crisis_frozen_def)

lemma crisis_frozen_activity: "crisis_frozen sm s0 s \<Longrightarrow> crisis_frozen sm s0 (update_activity t s)"
  by (simp add: crisis_frozen_def update_activity_def)

lemma crisis_frozen_entry:
  "crisis_frozen sm s0 s \<Longrightarrow>
     crisis_frozen sm s0 (add_conversation_entry um (crisis_response_message sm) (phase_value CRISIS_RESPONSE) now s)"
  by (auto simp: crisis_frozen_def update_activity_def add_conversation_entry_def phase_value.simps)

lemma crisis_frozen_updates:
  "u \<in> set [crisis_detected_upd True, current_phase_str (phase_value CRISIS_RESPONSE)]
     \<Longrightarrow> crisis_frozen sm s0 s \<Longrightarrow> set_field u s = Inr s' \<Longrightarrow> crisis_frozen sm s0 s'"
  by (auto simp: crisis_frozen_def)

lemma crisis_updates_no_error:
  "list_all (\<lambda>u. \<forall>s. \<exists>s'. set_field u s = Inr s')
     [crisis_detected_upd True, current_phase_str (phase_value p)]"
  by simp

lemma handle_crisis_response_reply:
  "fst (handle_crisis_response sid um cr now m) =
     (reply (message cr) CRISIS_RESPONSE True)\<lparr>next_action := Some ''stop''\<rparr>"
proof -
  obtain b where "fst (update_session sid [crisis_detected_upd True, current_phase_str (phase_value CRISIS_RESPONSE)] now m) = Inr b"
    using update_session_no_error[OF crisis_updates_no_error] by blast
  then show ?thesis
    by (cases "update_session sid [crisis_detected_upd True, current_phase_str (phase_value CRISIS_RESPONSE)] now m")
       (simp add: handle_crisis_response_def Let_def)
qed

lemma get_session_other: "k \<noteq> sid \<Longrightarrow> map_of (sessions (snd (get_session sid now m))) k = map_of (sessions m) k"
  by (simp add: get_session_def update_conv' delete_conv' split: option.splits)

lemma update_session_other:
  "k \<noteq> sid \<Longrightarrow> map_of (sessions (snd (update_session sid us now m))) k = map_of (sessions m) k"
proof -
  assume k: "k \<noteq> sid"
  obtain r m1 where g: "get_session sid now m = (r, m1)" by (cases "get_session sid now m")
  have "map_of (sessions m1) k = map_of (sessions m) k" using get_session_other[OF k, of now m] g by simp
  then show ?thesis using g k
    by (auto simp: update_session_def update_conv' split: option.splits prod.splits)
qed

lemma add_conversation_other:
  "k \<noteq> sid \<Longrightarrow> map_of (sessions (snd (add_conversation sid um ar ph now m))) k = map_of (sessions m) k"
proof -
  assume k: "k \<noteq> sid"
  obtain r m1 where g: "get_session sid now m = (r, m1)" by (cases "get_session sid now m")
  have "map_of (sessions m1) k = map_of (sessions m) k" using get_session_other[OF k, of now m] g by simp
  then show ?thesis using g k
    by (auto simp: add_conversation_def update_conv' split: option.splits)
qed

lemma add_response_other:
  "k \<noteq> sid \<Longrightarrow> map_of (sessions (snd (add_response sid q tx sc now m))) k = map_of (sessions m) k"
proof -
  assume k: "k \<noteq> sid"
  obtain r m1 where g: "get_session sid now m = (r, m1)" by (cases "get_session sid now m")
  have "map_of (sessions m1) k = map_of (sessions m) k" using get_session_other[OF k, of now m] g by simp
  then show ?thesis using g k
    by (auto simp: add_response_def update_conv' split: option.splits)
qed

lemma handle_crisis_response_other:
  "k \<noteq> sid \<Longrightarrow> map_of (sessions (snd (handle_crisis_response sid um cr now m))) k = map_of (sessions m) k"
proof -
  assume k: "k \<noteq> sid"
  let ?us = "[crisis_detected_upd True, current_phase_str (phase_value CRISIS_RESPONSE)]"
  obtain r m1 where u: "update_session sid ?us now m = (r, m1)" by (cases "update_session sid ?us now m")
  have 1: "map_of (sessions m1) k = map_of (sessions m) k"
    using update_session_other[OF k, of ?us now m] u by simp
  show ?thesis
    using 1 add_conversation_other[OF k, of um "message cr" "phase_value CRISIS_RESPONSE" now m1]
    by (cases r) (simp_all add: handle_crisis_response_def u Let_def)
qed

lemma get_session_expired_again:
  assumes "map_of (sessions m) sid = Some s" "last_activity s = now" "timeout_minutes m < 0"
  shows "get_session sid now m = (None, m\<lparr>sessions := AList.delete sid (sessions m)\<rparr>)"
proof -
  have "timeout_minutes m * minute < 0" using assms(3) by (simp add: minute_def)
  then have "is_expired s (timeout_minutes m) now" using assms(2) by (simp add: is_expired_def)
  then show ?thesis using assms(1) by (simp add: get_session_def)
qed

lemma handle_crisis_response_expired:
  assumes "map_of (sessions m) sid = Some s" "last_activity s = now" "timeout_minutes m < 0"
  shows "map_of (sessions (snd (handle_crisis_response sid um cr now m))) sid = None"
proof -
  let ?us = "[crisis_detected_upd True, current_phase_str (phase_value CRISIS_RESPONSE)]"
  let ?m1 = "m\<lparr>sessions := AList.delete sid (sessions m)\<rparr>"
  have u: "update_session sid ?us now m = (Inr False, ?m1)"
    using get_session_expired_again[OF assms] by (simp add: update_session_def)
  have ab: "map_of (sessions ?m1) sid = None" by (simp add: delete_conv')
  have a: "add_conversation sid um (message cr) (phase_value CRISIS_RESPONSE) now ?m1 = (False, ?m1)"
    using get_session_absent[OF ab] by (simp add: add_conversation_def)
  show ?thesis using ab by (simp add: handle_crisis_response_def u a Let_def)
qed

lemma get_session_Some_eq:
  "get_session sid now m = (Some session, m1) \<Longrightarrow> map_of (sessions m) sid = Some s
     \<Longrightarrow> session = s\<lparr>last_activity := now\<rparr>"
  by (auto simp: get_session_def update_activity_def split: if_splits)

lemma handle_crisis_response_frozen:
  assumes "every_session (\<lambda>k s'. k = sid \<longrightarrow> crisis_frozen sm s0 s') m"
  shows "every_session (\<lambda>k s'. k = sid \<longrightarrow> crisis_frozen sm s0 s')
           (snd (handle_crisis_response sid um
                   (cr\<lparr>message := crisis_response_message sm\<rparr>) now m))"
proof -
  let ?Q = "\<lambda>k s'. k = sid \<longrightarrow> crisis_frozen sm s0 s'"
  let ?us = "[crisis_detected_upd True, current_phase_str (phase_value CRISIS_RESPONSE)]"
  obtain b where b: "fst (update_session sid ?us now m) = Inr b"
    using update_session_no_error[OF crisis_updates_no_error] by blast
  define m1 where "m1 = snd (update_session sid ?us now m)"
  have u: "update_session sid ?us now m = (Inr b, m1)" using b by (simp add: m1_def prod_eq_iff)
  have e1: "every_session ?Q m1"
    unfolding m1_def
  proof (rule update_session_every[OF assms])
    show "\<And>s t. ?Q sid s \<Longrightarrow> ?Q sid (update_activity t s)" by (simp add: crisis_frozen_activity)
    show "\<And>u s s'. u \<in> set ?us \<Longrightarrow> ?Q sid s \<Longrightarrow> set_field u s = Inr s' \<Longrightarrow> ?Q sid s'"
      using crisis_frozen_updates by blast
  qed
  have e2: "every_session ?Q (snd (add_conversation sid um (crisis_response_message sm) (phase_value CRISIS_RESPONSE) now m1))"
  proof (rule add_conversation_every[OF e1])
    show "\<And>s t. ?Q sid s \<Longrightarrow> ?Q sid (update_activity t s)" by (simp add: crisis_frozen_activity)
    show "\<And>s. ?Q sid s \<Longrightarrow> ?Q sid (add_conversation_entry um (crisis_response_message sm) (phase_value CRISIS_RESPONSE) now s)"
      by (simp add: crisis_frozen_entry)
  qed
  show ?thesis using e2 by (simp add: handle_crisis_response_def u Let_def)
qed

lemma process_user_message_crisis_step:
  assumes inv: "every_session (\<lambda>k s'. k = sid \<longrightarrow> crisis_frozen sm s0 s') m"
  shows "every_session (\<lambda>k s'. k = sid \<longrightarrow> crisis_frozen sm s0 s')
           (snd (process_user_message cfg sm sid um rnd now m))"
    and "fst (get_session sid now m) = None \<Longrightarrow>
           fst (process_user_message cfg sm sid um rnd now m) = not_found_reply"
    and "fst (get_session sid now m) \<noteq> None \<Longrightarrow>
           fst (process_user_message cfg sm sid um rnd now m) = crisis_stop_reply sm"
    and "k \<noteq> sid \<Longrightarrow>
           map_of (sessions (snd (process_user_message cfg sm sid um rnd now m))) k = map_of (sessions m) k"
proof -
  let ?Q = "\<lambda>k s'. k = sid \<longrightarrow> crisis_frozen sm s0 s'"
  obtain r m1 where g: "get_session sid now m = (r, m1)" by (cases "get_session sid now m")
  have act: "\<And>s. ?Q sid s \<Longrightarrow> ?Q sid (update_activity now s)" by (simp add: crisis_frozen_activity)
  have e1: "every_session ?Q m1"
    using get_session_every(1)[OF inv act] g by simp
  have o1: "k \<noteq> sid \<Longrightarrow> map_of (sessions m1) k = map_of (sessions m) k"
    using get_session_other[of k sid now m] g by simp
  let ?cr = "check_for_crisis sm (Str um) now"
  have all: "every_session ?Q (snd (process_user_message cfg sm sid um rnd now m))
      \<and> (r = None \<longrightarrow> fst (process_user_message cfg sm sid um rnd now m) = not_found_reply)
      \<and> (r \<noteq> None \<longrightarrow> fst (process_user_message cfg sm sid um rnd now m) = crisis_stop_reply sm)
      \<and> (k \<noteq> sid \<longrightarrow> map_of (sessions (snd (process_user_message cfg sm sid um rnd now m))) k
                          = map_of (sessions m) k)"
  proof (cases r)
    case None
    then show ?thesis using g e1 o1 by (simp add: process_user_message_def)
  next
    case (Some session)
    have "?Q sid session"
      using get_session_every(2)[OF inv act, of session] g Some by simp
    then have cd: "crisis_detected session" by (simp add: crisis_frozen_def)
    show ?thesis
    proof (cases "requires_override ?cr")
      case True
      then have msg: "message ?cr = crisis_response_message sm"
        by (simp add: check_for_crisis_override check_for_crisis_message)
      then have cr: "?cr = ?cr\<lparr>message := crisis_response_message sm\<rparr>" by simp
      have "fst (handle_crisis_response sid um ?cr now m1) = crisis_stop_reply sm"
        by (simp add: handle_crisis_response_reply crisis_stop_reply_def msg)
      moreover have "every_session ?Q (snd (handle_crisis_response sid um ?cr now m1))"
        using handle_crisis_response_frozen[OF e1, of um ?cr now] cr by simp
      moreover have "k \<noteq> sid \<longrightarrow>
          map_of (sessions (snd (handle_crisis_response sid um ?cr now m1))) k = map_of (sessions m) k"
        using handle_crisis_response_other[of k sid um ?cr now m1] o1 by simp
      ultimately show ?thesis using g Some True by (simp add: process_user_message_def)
    next
      case False
      then show ?thesis using g Some cd e1 o1
        by (simp add: process_user_message_def crisis_stop_reply_def get_crisis_message_def)
    qed
  qed
  show "every_session ?Q (snd (process_user_message cfg sm sid um rnd now m))" using all by simp
  show "fst (get_session sid now m) = None \<Longrightarrow>
           fst (process_user_message cfg sm sid um rnd now m) = not_found_reply"
    using all g by simp
  show "fst (get_session sid now m) \<noteq> None \<Longrightarrow>
           fst (process_user_message cfg sm sid um rnd now m) = crisis_stop_reply sm"
    using all g by simp
  show "k \<noteq> sid \<Longrightarrow>
           map_of (sessions (snd (process_user_message cfg sm sid um rnd now m))) k = map_of (sessions m) k"
    using all by simp
qed

lemma process_messages_crisis:
  "every_session (\<lambda>k s'. k = sid \<longrightarrow> crisis_frozen sm s0 s') m \<Longrightarrow>
     list_all (\<lambda>r. r = not_found_reply \<or> r = crisis_stop_reply sm)
       (fst (process_messages cfg sm sid msgs m))
   \<and> every_session (\<lambda>k s'. k = sid \<longrightarrow> crisis_frozen sm s0 s')
        (snd (process_messages cfg sm sid msgs m))
   \<and> (\<forall>k. k \<noteq> sid \<longrightarrow>
         map_of (sessions (snd (process_messages cfg sm sid msgs m))) k = map_of (sessions m) k)"
proof (induction msgs arbitrary: m)
  case Nil
  then show ?case by simp
next
  case (Cons x rest)
  let ?p = "process_user_message cfg sm sid (fst x) (fst (snd x)) (snd (snd x)) m"
  note st = process_user_message_crisis_step[OF Cons.prems, where cfg=cfg and um="fst x"
                and rnd="fst (snd x)" and now="snd (snd x)"]
  have r: "fst ?p = not_found_reply \<or> fst ?p = crisis_stop_reply sm" using st(2,3) by blast
  have o: "\<forall>k. k \<noteq> sid \<longrightarrow> map_of (sessions (snd ?p)) k = map_of (sessions m) k"
    using st(4) by blast
  show ?case using Cons.IH[OF st(1)] r o by simp
qed

lemma process_user_message_crisis_exact:
  assumes st: "map_of (sessions m) sid = Some s" and cd: "crisis_detected s"
  shows "level (check_for_crisis sm (Str um) now) \<noteq> CRITICAL \<Longrightarrow>
           snd (process_user_message cfg sm sid um rnd now m) = snd (get_session sid now m)"
    and "level (check_for_crisis sm (Str um) now) = CRITICAL \<Longrightarrow>
           map_of (sessions (snd (process_user_message cfg sm sid um rnd now m))) sid =
             (if fst (get_session sid now m) \<noteq> None \<and> 0 \<le> timeout_minutes m
              then Some (s\<lparr>last_activity := now, crisis_detected := True,
                           current_phase := CRISIS_RESPONSE,
                           conversation_history :=
                             conversation_history s @ [crisis_entry sm um now]\<rparr>)
              else None)"
proof -
  obtain r m1 where g: "get_session sid now m = (r, m1)" by (cases "get_session sid now m")
  let ?cr = "check_for_crisis sm (Str um) now"
  show "snd (process_user_message cfg sm sid um rnd now m) = snd (get_session sid now m)"
    if "level ?cr \<noteq> CRITICAL"
  proof (cases r)
    case None
    then show ?thesis using g by (simp add: process_user_message_def)
  next
    case (Some session)
    then have "session = s\<lparr>last_activity := now\<rparr>" using get_session_Some_eq g st by blast
    then have "crisis_detected session" using cd by simp
    then show ?thesis using g Some that
      by (simp add: process_user_message_def check_for_crisis_override)
  qed
  show "map_of (sessions (snd (process_user_message cfg sm sid um rnd now m))) sid =
             (if fst (get_session sid now m) \<noteq> None \<and> 0 \<le> timeout_minutes m
              then Some (s\<lparr>last_activity := now, crisis_detected := True,
                           current_phase := CRISIS_RESPONSE,
                           conversation_history :=
                             conversation_history s @ [crisis_entry sm um now]\<rparr>)
              else None)"
    if lv: "level ?cr = CRITICAL"
  proof (cases r)
    case None
    then have "map_of (sessions m1) sid = None" using g get_session_NoneD by blast
    then show ?thesis using g None by (simp add: process_user_message_def)
  next
    case (Some session)
    then have se: "session = s\<lparr>last_activity := now\<rparr>" using get_session_Some_eq g st by blast
    note gd = get_session_SomeD[OF g[unfolded Some]]
    have p: "process_user_message cfg sm sid um rnd now m = handle_crisis_response sid um ?cr now m1"
      using g Some lv by (simp add: process_user_message_def check_for_crisis_override)
    have msg: "message ?cr = crisis_response_message sm" using lv by (rule check_for_crisis_message)
    have f: "fst (get_session sid now m) \<noteq> None" using g Some by simp
    show ?thesis
    proof (cases "0 \<le> timeout_minutes m")
      case True
      then have t1: "0 \<le> timeout_minutes m1" using gd(3) by simp
      have "snd (handle_crisis_response sid um ?cr now m1) =
              put_session sid
                (session\<lparr>crisis_detected := True, current_phase := CRISIS_RESPONSE,
                   conversation_history := conversation_history session @
                     [\<lparr>entry_user_message = um, entry_ai_response = message ?cr,
                       entry_phase = phase_value CRISIS_RESPONSE, entry_timestamp = now\<rparr>]\<rparr>) m1"
        using handle_crisis_response_live[OF gd(1) gd(2) t1, of um ?cr] by simp
      then show ?thesis using True f unfolding p
        by (simp add: se msg crisis_entry_def phase_value.simps)
    next
      case False
      then have "timeout_minutes m1 < 0" using gd(3) by simp
      then have "map_of (sessions (snd (handle_crisis_response sid um ?cr now m1))) sid = None"
        using handle_crisis_response_expired[OF gd(1) gd(2)] by simp
      then show ?thesis using False unfolding p by simp
    qed
  qed
qed

text \<open>
  Claim C2. Once the \<open>crisis_detected\<close> flag of a stored session is set, the flow is
  locked. A call of \<open>process_user_message\<close> that finds the session returns exactly
  the crisis reply (crisis message, phase \<open>CRISIS_RESPONSE\<close>, flag set, action
  \<open>stop\<close>), whatever the message text, the random draw and the configuration; a call that
  does not find it returns the not-found reply. A message without a critical trigger leaves
  the table as the look-up left it; a message with one stores, when the session was found
  and the time-out is not negative, exactly the session with the flag set, the phase
  \<open>CRISIS_RESPONSE\<close> and one crisis entry appended to its history, and no session
  otherwise. Along any sequence of calls every reply is one of the two, no other session of
  the table is touched, and the session, while stored, keeps the flag, its identity, selected
  tool, responses and completion flag, has its phase unchanged or \<open>CRISIS_RESPONSE\<close>,
  and its history only grows by crisis entries: no screening or result phase is entered.
\<close>

theorem crisis_response_absorbing:
  assumes "map_of (sessions m) sid = Some s" and "crisis_detected s"
  shows "(fst (get_session sid now m) \<noteq> None \<longrightarrow>
            fst (process_user_message cfg sm sid user_message rnd now m) = crisis_stop_reply sm)
       \<and> (fst (get_session sid now m) = None \<longrightarrow>
            fst (process_user_message cfg sm sid user_message rnd now m) = not_found_reply)
       \<and> (level (check_for_crisis sm (Str user_message) now) \<noteq> CRITICAL \<longrightarrow>
            snd (process_user_message cfg sm sid user_message rnd now m) = snd (get_session sid now m))
       \<and> (level (check_for_crisis sm (Str user_message) now) = CRITICAL \<longrightarrow>
            map_of (sessions (snd (process_user_message cfg sm sid user_message rnd now m))) sid =
              (if fst (get_session sid now m) \<noteq> None \<and> 0 \<le> timeout_minutes m
               then Some (s\<lparr>last_activity := now, crisis_detected := True,
                            current_phase := CRISIS_RESPONSE,
                            conversation_history :=
                              conversation_history s @ [crisis_entry sm user_message now]\<rparr>)
               else None))
       \<and> list_all (\<lambda>r. r = not_found_reply \<or> r = crisis_stop_reply sm)
            (fst (process_messages cfg sm sid msgs m))
       \<and> (\<forall>k. k \<noteq> sid \<longrightarrow>
              map_of (sessions (snd (process_messages cfg sm sid msgs m))) k = map_of (sessions m) k)
       \<and> (\<forall>s'. map_of (sessions (snd (process_messages cfg sm sid msgs m))) sid = Some s'
              \<longrightarrow> crisis_frozen sm s s')"
proof -
  have inv: "every_session (\<lambda>k s'. k = sid \<longrightarrow> crisis_frozen sm s s') m"
    using assms by (simp add: every_session_def crisis_frozen_refl)
  note st = process_user_message_crisis_step[OF inv, where cfg=cfg and um=user_message
               and rnd=rnd and now=now]
  note ex = process_user_message_crisis_exact[OF assms, where sm=sm and cfg=cfg
               and um=user_message and rnd=rnd and now=now]
  note sq = process_messages_crisis[OF inv, where cfg=cfg and msgs=msgs]
  have fr: "\<forall>s'. map_of (sessions (snd (process_messages cfg sm sid msgs m))) sid = Some s'
              \<longrightarrow> crisis_frozen sm s s'"
    using sq by (simp add: every_session_def)
  show ?thesis
    apply (intro conjI impI)
    subgoal by (rule st(3))
    subgoal by (rule st(2))
    subgoal by (rule ex(1))
    subgoal by (rule ex(2))
    subgoal using sq by blast
    subgoal using sq by blast
    subgoal by (rule fr)
    done
qed

theorem crisis_response_absorbing_witness:
  "map_of (sessions crisis_store) ''s1'' = Some crisis_session
   \<and> crisis_detected crisis_session
   \<and> fst (get_session ''s1'' minute crisis_store) = Some (crisis_session\<lparr>last_activity := minute\<rparr>)
   \<and> fst (process_user_message demo_config demo_monitor ''s1'' ''not at all'' 0 minute crisis_store)
         = crisis_stop_reply demo_monitor
   \<and> snd (process_user_message demo_config demo_monitor ''s1'' ''not at all'' 0 minute crisis_store)
         = put_session ''s1'' (crisis_session\<lparr>last_activity := minute\<rparr>) crisis_store
   \<and> level (check_for_crisis demo_monitor (Str ''I want to kill myself'') minute) = CRITICAL
   \<and> map_of (sessions (snd (process_user_message demo_config demo_monitor ''s1''
                                 ''I want to kill myself'' 0 minute crisis_store))) ''s1''
         = Some (crisis_session\<lparr>last_activity := minute, crisis_detected := True,
                   current_phase := CRISIS_RESPONSE,
                   conversation_history := conversation_history crisis_session @
                     [crisis_entry demo_monitor ''I want to kill myself'' minute]\<rparr>)"
proof -
  have a: "map_of (sessions crisis_store) ''s1'' = Some crisis_session"
    by (simp add: crisis_store_def)
  have b: "crisis_detected crisis_session" by (simp add: crisis_session_def)
  have g: "get_session ''s1'' minute crisis_store =
             (Some (crisis_session\<lparr>last_activity := minute\<rparr>),
              put_session ''s1'' (crisis_session\<lparr>last_activity := minute\<rparr>) crisis_store)"
    by (simp add: get_session_def crisis_store_def crisis_session_def screening_session_def
          new_SessionData_def is_expired_def update_activity_def minute_def put_session_def)
  have t: "0 \<le> timeout_minutes crisis_store" by (simp add: crisis_store_def)
  have n: "level (check_for_crisis demo_monitor (Str ''not at all'') minute) \<noteq> CRITICAL"
    by (simp add: check_for_crisis.simps demo_monitor_def string_eval no_crisis_def)
  have c: "level (check_for_crisis demo_monitor (Str ''I want to kill myself'') minute) = CRITICAL"
    by (simp add: check_for_crisis.simps demo_monitor_def string_eval)
  from crisis_response_absorbing[OF a b, where now=minute and sm=demo_monitor and cfg=demo_config
         and user_message="''not at all''" and rnd=0 and msgs="[]"]
  have r1: "fst (process_user_message demo_config demo_monitor ''s1'' ''not at all'' 0 minute crisis_store)
              = crisis_stop_reply demo_monitor"
    and r2: "snd (process_user_message demo_config demo_monitor ''s1'' ''not at all'' 0 minute crisis_store)
              = put_session ''s1'' (crisis_session\<lparr>last_activity := minute\<rparr>) crisis_store"
    using g n by simp_all
  from crisis_response_absorbing[OF a b, where now=minute and sm=demo_monitor and cfg=demo_config
         and user_message="''I want to kill myself''" and rnd=0 and msgs="[]"]
  have r3: "map_of (sessions (snd (process_user_message demo_config demo_monitor ''s1''
                                 ''I want to kill myself'' 0 minute crisis_store))) ''s1''
         = Some (crisis_session\<lparr>last_activity := minute, crisis_detected := True,
                   current_phase := CRISIS_RESPONSE,
                   conversation_history := conversation_history crisis_session @
                     [crisis_entry demo_monitor ''I want to kill myself'' minute]\<rparr>)"
    using g c t by simp
  show ?thesis using a b g c r1 r2 r3 by simp
qed

lemma find_severity_first:
  assumes "bands = pre @ (n, lo, hi) # post" "lo \<le> t" "t \<le> hi"
      and "list_all (\<lambda>b. \<not> in_band t b) pre"
  shows "find_severity bands t = n"
proof -
  have "find (\<lambda>(sev_name, low, high). low \<le> t \<and> t \<le> high) (pre @ (n, lo, hi) # post) = Some (n, lo, hi)"
    using assms(2-4) by (induction pre) (auto simp: in_band_def)
  then show ?thesis using assms(1) by (simp add: find_severity_def)
qed

lemma find_severity_none:
  assumes "list_all (\<lambda>b. \<not> in_band t b) bands"
  shows "find_severity bands t = ''minimal''"
proof -
  have "find (\<lambda>(sev_name, low, high). low \<le> t \<and> t \<le> high) bands = None"
    using assms by (induction bands) (auto simp: in_band_def)
  then show ?thesis by (simp add: find_severity_def)
qed

lemma handle_put_session [simp]: "handle sid s0 (put_session sid s m) = s"
  by (simp add: handle_def)

lemma transition_to_results_live:
  assumes "map_of (sessions m) sid = Some s" "last_activity s = now" "0 \<le> timeout_minutes m"
      and "selected_tool s = Some tool"
  shows "transition_to_results cfg sid um s0 rnd now m =
           ((reply (full_response (snd (classify cfg (tool_name_of tool) (get_total_score s))) rnd) RESULTS False)
              \<lparr>total_score := Some (get_total_score s),
               severity_level := Some (fst (classify cfg (tool_name_of tool) (get_total_score s))),
               reply_completed := Some True\<rparr>,
            put_session sid
              (s\<lparr>current_phase := RESULTS, completed := True,
                 conversation_history := conversation_history s @
                   [\<lparr>entry_user_message = um,
                     entry_ai_response = full_response (snd (classify cfg (tool_name_of tool) (get_total_score s))) rnd,
                     entry_phase = phase_value RESULTS, entry_timestamp = now\<rparr>]\<rparr>) m)"
proof -
  define s2 where "s2 = s\<lparr>current_phase := RESULTS, completed := True\<rparr>"
  let ?text = "full_response (snd (classify cfg (tool_name_of tool) (get_total_score s))) rnd"
  have sf: "set_fields [current_phase_str (phase_value RESULTS), completed_upd True] s = (None, s2)"
    by (simp add: s2_def)
  have la2: "last_activity s2 = now" using assms(2) by (simp add: s2_def)
  have u: "update_session sid [current_phase_str (phase_value RESULTS), completed_upd True] now m
             = (Inr True, put_session sid s2 m)"
    using update_session_again[OF assms(1-3) sf la2] .
  have tl: "selected_tool s2 = Some tool" and ts: "get_total_score s2 = get_total_score s"
    using assms(4) by (simp_all add: s2_def get_total_score_def)
  have a: "add_conversation sid um ?text (phase_value RESULTS) now (put_session sid s2 m)
             = (True, put_session sid (add_conversation_entry um ?text (phase_value RESULTS) now s2) m)"
    using add_conversation_again[of "put_session sid s2 m" sid s2 now] la2 assms(3) by simp
  have e: "add_conversation_entry um ?text (phase_value RESULTS) now s2 =
             s\<lparr>current_phase := RESULTS, completed := True,
                 conversation_history := conversation_history s @
                   [\<lparr>entry_user_message = um, entry_ai_response = ?text,
                     entry_phase = phase_value RESULTS, entry_timestamp = now\<rparr>]\<rparr>"
    using assms(2) by (simp add: add_conversation_entry_def update_activity_def s2_def)
  show ?thesis
    unfolding transition_to_results_def u
    by (simp add: tl ts a e Let_def)
qed

lemma classify_severity:
  "classify cfg name t = (reported_severity cfg (find_severity (thresholds_of cfg name) t),
                          shown_entry cfg (find_severity (thresholds_of cfg name) t))"
  by (simp add: classify_def reported_severity_def shown_entry_def Let_def)

lemma handle_screening_phase_final:
  assumes st: "map_of (sessions m) sid = Some s" and la: "last_activity s = now"
      and tm: "0 \<le> timeout_minutes m"
      and tl: "selected_tool s = Some tool"
      and sc: "map_response_to_score cfg um (tool_name_of tool) = Inr score"
      and ok: "score \<noteq> - 1"
      and nc: "\<not> (tool = PHQ9 \<and> crisis_index_of cfg ''PHQ9'' = Some (int (length (responses s))) \<and> score > 0)"
      and fin: "length (questions_of cfg (tool_name_of tool)) \<le> length (responses s) + 1"
  shows "handle_screening_phase cfg sm sid um s rnd now m =
           transition_to_results cfg sid um
             (session_add_response (lower (tool_name_of tool) @ ''_'' @ string_of_nat (length (responses s) + 1))
                um score now s) rnd now
             (put_session sid
                (session_add_response (lower (tool_name_of tool) @ ''_'' @ string_of_nat (length (responses s) + 1))
                   um score now s) m)"
proof -
  let ?qid = "lower (tool_name_of tool) @ ''_'' @ string_of_nat (length (responses s) + 1)"
  let ?qid' = "lower (tool_name_of tool) @ CHR ''_'' # string_of_nat (Suc (length (responses s)))"
  have r: "add_response sid ?qid' um score now m = (True, put_session sid (session_add_response ?qid' um score now s) m)"
    using add_response_again[OF st la tm] .
  have nm: "tool_name_of tool = ''PHQ9'' \<longleftrightarrow> tool = PHQ9"
    by (cases tool) (simp_all add: tool_name_of_def tool_value.simps)
  have nc': "\<not> (tool_name_of tool = ''PHQ9'' \<and> crisis_index_of cfg (tool_name_of tool) \<noteq> None
                \<and> int (length (responses s)) = the (crisis_index_of cfg (tool_name_of tool)) \<and> score > 0)"
    using nc nm by (auto simp: tool_name_of_def tool_value.simps)
  have nf: "\<not> Suc (length (responses s)) < length (questions_of cfg (tool_name_of tool))"
    using fin by simp
  show ?thesis
    unfolding handle_screening_phase_def
    using nc' nf ok
    by (auto simp add: tl sc r Let_def simp del: string_of_nat.simps)
qed

text \<open>
  Claim C7, as the code has it. A session found in \<open>SCREENING\<close> with a selected tool, not
  in crisis, receives a message without a crisis trigger that maps to a score (not \<open>-1\<close>),
  is not the PHQ9 crisis question answered above 0, and answers the last question (with it,
  as many responses are recorded as the tool has questions, or more). Then the response is
  recorded, the stored session takes phase \<open>RESULTS\<close> with \<open>completed\<close> set, and the reply
  has phase \<open>RESULTS\<close>, \<open>completed\<close>, the total: the sum of the mapped scores of all
  recorded responses, this one included; and the severity: the name of the first band, in
  the order of the tool's threshold list, whose inclusive range holds the total, and
  \<open>"minimal"\<close> when no band does; in both cases \<open>"normal"\<close> is reported as \<open>"minimal"\<close>
  and a \<open>"moderately_severe"\<close> without an entry in the results table as \<open>"severe"\<close>. The
  \<open>"moderate"\<close> entry of the results table only supplies the message text for a severity
  that has no entry of its own; the severity reported is not changed to \<open>"moderate"\<close>.
  An entry of the results table is taken to have no key besides \<open>message\<close> and
  \<open>suggestions\<close>.
\<close>

theorem final_answer_transitions_to_results:
  assumes "get_session sid now m = (Some session, m1)"
      and "0 \<le> timeout_minutes m"
      and "level (check_for_crisis sm (Str user_message) now) \<noteq> CRITICAL"
      and "\<not> crisis_detected session"
      and "current_phase session = SCREENING"
      and "selected_tool session = Some tool"
      and "map_response_to_score cfg user_message (tool_name_of tool) = Inr score"
      and "score \<noteq> - 1"
      and "\<not> (tool = PHQ9 \<and> crisis_index_of cfg ''PHQ9'' = Some (int (length (responses session)))
              \<and> score > 0)"
      and "length (questions_of cfg (tool_name_of tool)) \<le> length (responses session) + 1"
  shows "(let tscore = sum_list (map mapped_score (responses session)) + score;
              bands = thresholds_of cfg (tool_name_of tool);
              found = find_severity bands tscore;
              text = full_response (shown_entry cfg found) rnd
          in process_user_message cfg sm sid user_message rnd now m =
               ((reply text RESULTS False)
                  \<lparr>total_score := Some tscore,
                   severity_level := Some (reported_severity cfg found),
                   reply_completed := Some True\<rparr>,
                m1\<lparr>sessions := AList.update sid
                  (session\<lparr>current_phase := RESULTS, completed := True,
                     responses := responses session @
                       [\<lparr>question_id = lower (tool_name_of tool) @ ''_''
                                          @ string_of_nat (length (responses session) + 1),
                         user_text = user_message, mapped_score = score, timestamp = now\<rparr>],
                     conversation_history := conversation_history session @
                       [\<lparr>entry_user_message = user_message, entry_ai_response = text,
                         entry_phase = ''RESULTS'', entry_timestamp = now\<rparr>]\<rparr>)
                  (sessions m1)\<rparr>)
            \<and> (\<forall>pre n lo hi post.
                  bands = pre @ (n, lo, hi) # post \<and> lo \<le> tscore \<and> tscore \<le> hi
                  \<and> list_all (\<lambda>b. \<not> in_band tscore b) pre \<longrightarrow> found = n)
            \<and> (list_all (\<lambda>b. \<not> in_band tscore b) bands \<longrightarrow> found = ''minimal''))"
proof -
  note g = get_session_SomeD[OF assms(1)]
  have tm: "0 \<le> timeout_minutes m1" using g(3) assms(2) by simp
  have ov: "\<not> requires_override (check_for_crisis sm (Str user_message) now)"
    using assms(3) by (simp add: check_for_crisis_override)
  let ?qid = "lower (tool_name_of tool) @ ''_'' @ string_of_nat (length (responses session) + 1)"
  define s1 where "s1 = session_add_response ?qid user_message score now session"
  let ?tscore = "sum_list (map mapped_score (responses session)) + score"
  let ?found = "find_severity (thresholds_of cfg (tool_name_of tool)) ?tscore"
  let ?text = "full_response (shown_entry cfg ?found) rnd"
  have sc: "handle_screening_phase cfg sm sid user_message session rnd now m1 =
              transition_to_results cfg sid user_message s1 rnd now (put_session sid s1 m1)"
    unfolding s1_def
    by (rule handle_screening_phase_final[OF g(1) g(2) tm assms(6) assms(7) assms(8) assms(9) assms(10)])
  have la1: "last_activity s1 = now" by (simp add: s1_def)
  have tl1: "selected_tool s1 = Some tool"
    using assms(6) by (simp add: s1_def session_add_response_def update_activity_def)
  have ts1: "get_total_score s1 = ?tscore"
    by (simp add: s1_def session_add_response_def update_activity_def get_total_score_def)
  have st1: "map_of (sessions (put_session sid s1 m1)) sid = Some s1" by simp
  have tm1: "0 \<le> timeout_minutes (put_session sid s1 m1)" using tm by simp
  have tr: "transition_to_results cfg sid user_message s1 rnd now (put_session sid s1 m1) =
           ((reply ?text RESULTS False)
              \<lparr>total_score := Some ?tscore,
               severity_level := Some (reported_severity cfg ?found),
               reply_completed := Some True\<rparr>,
            put_session sid
              (s1\<lparr>current_phase := RESULTS, completed := True,
                 conversation_history := conversation_history s1 @
                   [\<lparr>entry_user_message = user_message, entry_ai_response = ?text,
                     entry_phase = phase_value RESULTS, entry_timestamp = now\<rparr>]\<rparr>) m1)"
    using transition_to_results_live[OF st1 la1 tm1 tl1, of cfg user_message s1 rnd]
    by (simp add: ts1 classify_severity)
  have e: "s1\<lparr>current_phase := RESULTS, completed := True,
                 conversation_history := conversation_history s1 @
                   [\<lparr>entry_user_message = user_message, entry_ai_response = ?text,
                     entry_phase = phase_value RESULTS, entry_timestamp = now\<rparr>]\<rparr>
           = session\<lparr>current_phase := RESULTS, completed := True,
                     responses := responses session @
                       [\<lparr>question_id = ?qid,
                         user_text = user_message, mapped_score = score, timestamp = now\<rparr>],
                     conversation_history := conversation_history session @
                       [\<lparr>entry_user_message = user_message, entry_ai_response = ?text,
                         entry_phase = ''RESULTS'', entry_timestamp = now\<rparr>]\<rparr>"
    using g(2)
    by (simp add: s1_def session_add_response_def update_activity_def phase_value.simps
             del: string_of_nat.simps)
  have main: "process_user_message cfg sm sid user_message rnd now m =
               ((reply ?text RESULTS False)
                  \<lparr>total_score := Some ?tscore,
                   severity_level := Some (reported_severity cfg ?found),
                   reply_completed := Some True\<rparr>,
                m1\<lparr>sessions := AList.update sid
                  (session\<lparr>current_phase := RESULTS, completed := True,
                     responses := responses session @
                       [\<lparr>question_id = ?qid,
                         user_text = user_message, mapped_score = score, timestamp = now\<rparr>],
                     conversation_history := conversation_history session @
                       [\<lparr>entry_user_message = user_message, entry_ai_response = ?text,
                         entry_phase = ''RESULTS'', entry_timestamp = now\<rparr>]\<rparr>)
                  (sessions m1)\<rparr>)"
  proof -
    have "handle_screening_phase cfg sm sid user_message session rnd now m1 =
           ((reply ?text RESULTS False)
              \<lparr>total_score := Some ?tscore,
               severity_level := Some (reported_severity cfg ?found),
               reply_completed := Some True\<rparr>,
            put_session sid
              (session\<lparr>current_phase := RESULTS, completed := True,
                     responses := responses session @
                       [\<lparr>question_id = ?qid,
                         user_text = user_message, mapped_score = score, timestamp = now\<rparr>],
                     conversation_history := conversation_history session @
                       [\<lparr>entry_user_message = user_message, entry_ai_response = ?text,
                         entry_phase = ''RESULTS'', entry_timestamp = now\<rparr>]\<rparr>) m1)"
      unfolding sc tr e ..
    then show ?thesis
      unfolding process_user_message_def assms(1)
      using ov assms(4,5)
      by (simp add: put_session_def del: string_of_nat.simps)
  qed
  have b1: "\<forall>pre n lo hi post.
                  thresholds_of cfg (tool_name_of tool) = pre @ (n, lo, hi) # post
                  \<and> lo \<le> ?tscore \<and> ?tscore \<le> hi
                  \<and> list_all (\<lambda>b. \<not> in_band ?tscore b) pre \<longrightarrow> ?found = n"
    using find_severity_first by blast
  have b2: "list_all (\<lambda>b. \<not> in_band ?tscore b) (thresholds_of cfg (tool_name_of tool))
              \<longrightarrow> ?found = ''minimal''"
    using find_severity_none by blast
  show ?thesis
    unfolding Let_def using main b1 b2 by blast
qed

text \<open>
  Claim C7 as stated fails where it names the fall-back. GAD7 has two questions and the
  bands \<open>minimal [0,1]\<close>, \<open>mild [2,3]\<close>, \<open>severe [4,5]\<close>; a session that answered
  the first question with score 3 answers the second, and last, with score 3. The total 6
  lies in no band, the results table has a \<open>"moderate"\<close> entry, and the reply reaches
  \<open>RESULTS\<close> with \<open>completed\<close>, total 6, the severity \<open>"minimal"\<close> and the message
  of the \<open>"minimal"\<close> entry, not \<open>"moderate"\<close>.
\<close>

theorem no_band_falls_back_to_minimal_counterexample:
  "current_phase gad7_q2_session = SCREENING
   \<and> selected_tool gad7_q2_session = Some GAD7
   \<and> map mapped_score (responses gad7_q2_session) = [3]
   \<and> length (questions_of demo_config ''GAD7'') = length (responses gad7_q2_session) + 1
   \<and> thresholds_of demo_config ''GAD7'' = [(''minimal'', 0, 1), (''mild'', 2, 3), (''severe'', 4, 5)]
   \<and> map_response_to_score demo_config ''nearly every day'' ''GAD7'' = Inr 3
   \<and> result_message (result_entry demo_config ''moderate'') = Some ''Moderate symptoms.''
   \<and> fst (process_user_message demo_config demo_monitor ''s1'' ''nearly every day'' 0 minute gad7_q2_store)
        = (reply ''Minimal symptoms.'' RESULTS False)
             \<lparr>total_score := Some 6, severity_level := Some ''minimal'', reply_completed := Some True\<rparr>
   \<and> map_option completed
        (map_of (sessions (snd (process_user_message demo_config demo_monitor ''s1'' ''nearly every day'' 0 minute gad7_q2_store))) ''s1'')
        = Some True
   \<and> map_option current_phase
        (map_of (sessions (snd (process_user_message demo_config demo_monitor ''s1'' ''nearly every day'' 0 minute gad7_q2_store))) ''s1'')
        = Some RESULTS"
  by code_simp

lemma gad7_q2_store_get:
  "get_session ''s1'' minute gad7_q2_store =
     (Some (gad7_q2_session\<lparr>last_activity := minute\<rparr>),
      gad7_q2_store\<lparr>sessions := [(''s1'', gad7_q2_session\<lparr>last_activity := minute\<rparr>)]\<rparr>)"
  by (simp add: get_session_def gad7_q2_store_def gad7_q2_session_def gad7_session_def
        screening_session_def new_SessionData_def is_expired_def update_activity_def minute_def)

theorem final_answer_transitions_to_results_witness:
  "get_session ''s1'' minute gad7_q2_store =
     (Some (gad7_q2_session\<lparr>last_activity := minute\<rparr>),
      gad7_q2_store\<lparr>sessions := [(''s1'', gad7_q2_session\<lparr>last_activity := minute\<rparr>)]\<rparr>)
   \<and> 0 \<le> timeout_minutes gad7_q2_store
   \<and> level (check_for_crisis demo_monitor (Str ''several days'') minute) = NONE
   \<and> map_response_to_score demo_config ''several days'' ''GAD7'' = Inr 1
   \<and> length (questions_of demo_config ''GAD7'') = 2
   \<and> map mapped_score (responses gad7_q2_session) = [3]
   \<and> thresholds_of demo_config ''GAD7'' = [(''minimal'', 0, 1), (''mild'', 2, 3), (''severe'', 4, 5)]
   \<and> process_user_message demo_config demo_monitor ''s1'' ''several days'' 0 minute gad7_q2_store =
        ((reply ''Severe symptoms.'' RESULTS False)
           \<lparr>total_score := Some 4, severity_level := Some ''severe'', reply_completed := Some True\<rparr>,
         gad7_q2_store\<lparr>sessions :=
           [(''s1'', gad7_q2_session\<lparr>last_activity := minute,
                current_phase := RESULTS, completed := True,
                responses := responses gad7_q2_session @
                   [\<lparr>question_id = ''gad7_2'', user_text = ''several days'',
                     mapped_score = 1, timestamp = minute\<rparr>],
                conversation_history := conversation_history gad7_q2_session @
                   [\<lparr>entry_user_message = ''several days'',
                     entry_ai_response = ''Severe symptoms.'',
                     entry_phase = ''RESULTS'', entry_timestamp = minute\<rparr>]\<rparr>)]\<rparr>)"
proof -
  have t: "0 \<le> timeout_minutes gad7_q2_store" by (simp add: gad7_q2_store_def)
  have lv: "level (check_for_crisis demo_monitor (Str ''several days'') minute) = NONE"
    by code_simp
  have c: "level (check_for_crisis demo_monitor (Str ''several days'') minute) \<noteq> CRITICAL"
    using lv by simp
  have nd: "\<not> crisis_detected (gad7_q2_session\<lparr>last_activity := minute\<rparr>)"
    and ph: "current_phase (gad7_q2_session\<lparr>last_activity := minute\<rparr>) = SCREENING"
    and tl: "selected_tool (gad7_q2_session\<lparr>last_activity := minute\<rparr>) = Some GAD7"
    by (simp_all add: gad7_q2_session_def gad7_session_def screening_session_def new_SessionData_def)
  have tn: "tool_name_of GAD7 = ''GAD7''" by (simp add: tool_name_of_def tool_value.simps)
  have sc0: "map_response_to_score demo_config ''several days'' ''GAD7'' = Inr 1" by code_simp
  have sc: "map_response_to_score demo_config ''several days'' (tool_name_of GAD7) = Inr 1"
    using sc0 tn by simp
  have ok: "(1::int) \<noteq> - 1" by simp
  have nc: "\<not> (GAD7 = PHQ9 \<and> crisis_index_of demo_config ''PHQ9''
                 = Some (int (length (responses (gad7_q2_session\<lparr>last_activity := minute\<rparr>))))
               \<and> (1::int) > 0)" by simp
  have ql: "length (questions_of demo_config ''GAD7'') = 2" by code_simp
  have rs: "map mapped_score (responses gad7_q2_session) = [3]" by (simp add: gad7_q2_session_def)
  have ln: "length (responses (gad7_q2_session\<lparr>last_activity := minute\<rparr>)) = 1"
    by (simp add: gad7_q2_session_def)
  have fin: "length (questions_of demo_config (tool_name_of GAD7))
               \<le> length (responses (gad7_q2_session\<lparr>last_activity := minute\<rparr>)) + 1"
    using ql ln tn by simp
  have th: "thresholds_of demo_config ''GAD7'' = [(''minimal'', 0, 1), (''mild'', 2, 3), (''severe'', 4, 5)]"
    by code_simp
  have fs: "find_severity [(''minimal'', 0, 1), (''mild'', 2, 3), (''severe'', 4, 5)] 4 = ''severe''"
    by code_simp
  have rp: "reported_severity demo_config ''severe'' = ''severe''" by code_simp
  have fr: "full_response (shown_entry demo_config ''severe'') 0 = ''Severe symptoms.''" by code_simp
  have qid: "lower ''GAD7'' @ CHR ''_'' # string_of_nat (Suc (length (responses gad7_q2_session))) = ''gad7_2''"
    by code_simp
  from final_answer_transitions_to_results[OF gad7_q2_store_get t c nd ph tl sc ok nc fin, of 0]
  have "process_user_message demo_config demo_monitor ''s1'' ''several days'' 0 minute gad7_q2_store =
        ((reply ''Severe symptoms.'' RESULTS False)
           \<lparr>total_score := Some 4, severity_level := Some ''severe'', reply_completed := Some True\<rparr>,
         gad7_q2_store\<lparr>sessions :=
           [(''s1'', gad7_q2_session\<lparr>last_activity := minute,
                current_phase := RESULTS, completed := True,
                responses := responses gad7_q2_session @
                   [\<lparr>question_id = ''gad7_2'', user_text = ''several days'',
                     mapped_score = 1, timestamp = minute\<rparr>],
                conversation_history := conversation_history gad7_q2_session @
                   [\<lparr>entry_user_message = ''several days'',
                     entry_ai_response = ''Severe symptoms.'',
                     entry_phase = ''RESULTS'', entry_timestamp = minute\<rparr>]\<rparr>)]\<rparr>)"
    by (simp add: Let_def tn th rs fs rp fr qid del: string_of_nat.simps)
  then show ?thesis using gad7_q2_store_get t lv sc0 ql rs th by simp
qed

lemma set_field_responses: "set_field u s = Inr s' \<Longrightarrow> responses s' = responses s"
  by (cases u) (auto split: sum.splits)

lemma set_fields_responses: "responses (snd (set_fields us s)) = responses s"
proof (induction us arbitrary: s)
  case Nil
  then show ?case by simp
next
  case (Cons u us)
  show ?case
  proof (cases "set_field u s")
    case (Inl e)
    then show ?thesis by simp
  next
    case (Inr s')
    then show ?thesis using Cons.IH[of s'] set_field_responses[OF Inr] by simp
  qed
qed

text \<open>
  Claim C8 holds except for the clearing of the responses, which the code attempts and
  misses: \<open>_handle_triage_phase\<close> passes \<open>responses={}\<close> to \<open>update_session\<close> (with
  the comment "Clear any old responses if any"), and \<open>update_session\<close> skips every key
  outside \<open>allowed_fields\<close>, \<open>responses\<close> among them. The session below is in
  \<open>TRIAGE\<close> and holds one response. The message \<open>I feel sad\<close> holds the PHQ9 keyword
  \<open>sad\<close>: the tool becomes PHQ9, the phase \<open>SCREENING\<close>, question 1 is emitted, and
  the response is still there. The next reply, the answer to question 1, is then recorded as
  \<open>phq9_2\<close> and ends the two-question questionnaire in \<open>RESULTS\<close>.
\<close>

theorem triage_keeps_stale_responses:
  "fst (update_session ''s1''
          [selected_tool_str ''PHQ-9'', current_phase_str ''RESULTS'', completed_upd True]
          (3 * minute) scored_store) = Inl ValueError
   \<and> map_option current_phase (map_of (sessions stale_triage_store) ''s1'') = Some TRIAGE
   \<and> map_option selected_tool (map_of (sessions stale_triage_store) ''s1'') = Some None
   \<and> map_option crisis_detected (map_of (sessions stale_triage_store) ''s1'') = Some False
   \<and> map_option responses (map_of (sessions stale_triage_store) ''s1'') =
         Some [\<lparr>question_id = ''phq9_1'', user_text = ''several days'', mapped_score = 1,
                 timestamp = 3 * minute\<rparr>]
   \<and> route demo_config (lower ''I feel sad'') = Some ''PHQ9''
   \<and> questions_of demo_config ''PHQ9'' = [''Little interest?'', ''Thoughts of self-harm?'']
   \<and> fst (process_user_message demo_config demo_monitor ''s1'' ''I feel sad'' 0 (4 * minute)
             stale_triage_store) =
         (reply ''I understand. Let's talk a bit more about that. Little interest?'' SCREENING False)
           \<lparr>reply_selected_tool := Some ''PHQ9'', question_number := Some 1\<rparr>
   \<and> map_option current_phase
         (map_of (sessions (snd (process_user_message demo_config demo_monitor ''s1'' ''I feel sad'' 0
                                   (4 * minute) stale_triage_store))) ''s1'') = Some SCREENING
   \<and> map_option selected_tool
         (map_of (sessions (snd (process_user_message demo_config demo_monitor ''s1'' ''I feel sad'' 0
                                   (4 * minute) stale_triage_store))) ''s1'') = Some (Some PHQ9)
   \<and> map_option responses
         (map_of (sessions (snd (process_user_message demo_config demo_monitor ''s1'' ''I feel sad'' 0
                                   (4 * minute) stale_triage_store))) ''s1'') =
         Some [\<lparr>question_id = ''phq9_1'', user_text = ''several days'', mapped_score = 1,
                 timestamp = 3 * minute\<rparr>]
   \<and> fst (process_user_message demo_config demo_monitor ''s1'' ''not at all'' 0 (5 * minute)
            (snd (process_user_message demo_config demo_monitor ''s1'' ''I feel sad'' 0
                    (4 * minute) stale_triage_store))) =
         (reply ''Minimal symptoms.'' RESULTS False)
           \<lparr>total_score := Some 1, severity_level := Some ''minimal'', reply_completed := Some True\<rparr>
   \<and> map_option (map question_id \<circ> responses)
         (map_of (sessions
            (snd (process_user_message demo_config demo_monitor ''s1'' ''not at all'' 0 (5 * minute)
               (snd (process_user_message demo_config demo_monitor ''s1'' ''I feel sad'' 0
                       (4 * minute) stale_triage_store))))) ''s1'') =
         Some [''phq9_1'', ''phq9_2'']"
  by code_simp

(*PROOFS-END*)

end
